theory Spec2Isabelle
  imports Complex_Main "HOL-Library.Word" "HOL-Library.Log_Nat"
begin

section \<open>Values and schemas\<close>

text \<open>
  The two flows of \<^verbatim>\<open>src/ai/flows\<close> (found in \<^verbatim>\<open>src/unnamed/part_006\<close>) receive and return
  plain JavaScript data that is checked at run time against zod schemas. A value is
  therefore modelled untyped, as the data a JavaScript caller or the model can really
  hand over. The flows pass the numbers in such data on and never compute with them, so
  a number is kept here as the real it denotes (NaN and the infinities, which
  \<^verbatim>\<open>z.number()\<close> rejects, are left out). An object is an association list read with
  \<open>map_of\<close>.
\<close>

datatype json =
    JNull
  | JBool bool
  | JNum real
  | JStr string
  | JArr "json list"
  | JObj "(string \<times> json) list"

text \<open>
  The zod combinators the source uses: \<^verbatim>\<open>z.string()\<close>, \<^verbatim>\<open>z.number()\<close>,
  \<^verbatim>\<open>z.enum([...])\<close>, \<^verbatim>\<open>z.array(s)\<close>, \<^verbatim>\<open>z.object({...})\<close> and \<^verbatim>\<open>s.describe(text)\<close>.
  No schema of the source uses \<^verbatim>\<open>.min\<close>, \<^verbatim>\<open>.max\<close>, \<^verbatim>\<open>.int\<close> or \<^verbatim>\<open>.refine\<close>, so the
  embedding has no constructor for them.
\<close>

datatype schema =
    ZString
  | ZNumber
  | ZEnum "string list"
  | ZArray schema
  | ZObject "(string \<times> schema) list"
  | ZDescribe schema string

datatype seg = Key string | Index nat

datatype constraint =
    ExpectedString
  | ExpectedNumber
  | ExpectedArray
  | ExpectedObject
  | ExpectedEnum "string list"
  | Required string

type_synonym issue = "seg list \<times> constraint"

text \<open>Property access \<^verbatim>\<open>v.k\<close>; \<open>None\<close> stands for \<^verbatim>\<open>undefined\<close>.\<close>

definition field :: "string \<Rightarrow> json \<Rightarrow> json option" where
  "field k v = (case v of JObj kvs \<Rightarrow> map_of kvs k | _ \<Rightarrow> None)"

text \<open>
  Validation of a value against a schema. Genkit checks the input and the output of a
  flow with the JSON-schema validator ajv in its default mode, which stops at the first
  violation: at most one issue is reported, a pair of a path and the violated
  constraint. A value of the wrong type is reported at its own path (for an enumeration
  the type is checked before the membership). An object is first checked for its
  declared keys, in the order of their declaration, and a missing key is reported at the
  path of the object, with the name of the key; then the values under the declared keys
  are checked in the same order. The elements of an array are checked in order. Unknown
  keys pass (zod's default for \<^verbatim>\<open>z.object\<close>); a description has no effect on validation.
\<close>

fun validate :: "schema \<Rightarrow> seg list \<Rightarrow> json \<Rightarrow> issue list" where
  "validate ZString p v = (case v of JStr s \<Rightarrow> [] | _ \<Rightarrow> [(p, ExpectedString)])"
| "validate ZNumber p v = (case v of JNum n \<Rightarrow> [] | _ \<Rightarrow> [(p, ExpectedNumber)])"
| "validate (ZEnum vs) p v =
     (case v of
        JStr s \<Rightarrow> if s \<in> set vs then [] else [(p, ExpectedEnum vs)]
      | _ \<Rightarrow> [(p, ExpectedString)])"
| "validate (ZArray s) p v =
     (case v of
        JArr xs \<Rightarrow>
          take 1 (concat (map (\<lambda>(i, x). validate s (p @ [Index i]) x) (enumerate 0 xs)))
      | _ \<Rightarrow> [(p, ExpectedArray)])"
| "validate (ZObject fs) p v =
     (case v of
        JObj kvs \<Rightarrow>
          (case filter (\<lambda>k. map_of kvs k = None) (map fst fs) of
             k # ks \<Rightarrow> [(p, Required k)]
           | [] \<Rightarrow>
               take 1 (concat (map (\<lambda>(k, s). case map_of kvs k of
                                                None \<Rightarrow> []
                                              | Some x \<Rightarrow> validate s (p @ [Key k]) x) fs)))
      | _ \<Rightarrow> [(p, ExpectedObject)])"
| "validate (ZDescribe s d) p v = validate s p v"

subsection \<open>The schemas of generate-social-media-copy.ts\<close>

definition GenerateItemSchema :: schema where
  "GenerateItemSchema = ZObject
     [(''area'', ZDescribe ZString ''The area being analyzed, e.g., 'Headline Clarity'.''),
      (''score'', ZDescribe ZNumber ''A score from 1-10 for this area.''),
      (''leak'', ZDescribe ZString ''The identified funnel leak or weakness.''),
      (''fix'', ZObject
         [(''primarySuggestion'', ZDescribe ZString ''Suggestion A for A/B test.''),
          (''abTestSuggestion'', ZDescribe ZString ''Suggestion B for A/B test.'')])]"

definition GenerateSocialMediaCopyInputSchema :: schema where
  "GenerateSocialMediaCopyInputSchema = ZObject
     [(''analysis'', ZDescribe (ZArray GenerateItemSchema) ''The analysis of the funnel.''),
      (''persona'', ZDescribe ZString ''The target audience persona.''),
      (''offerDetails'', ZDescribe ZString ''Details of the offer being promoted.'')]"

definition GenerateSocialMediaCopyOutputSchema :: schema where
  "GenerateSocialMediaCopyOutputSchema = ZObject
     [(''platform'', ZDescribe ZString ''e.g., 'Instagram Post' or 'Short Email' ''),
      (''content'', ZDescribe ZString ''The generated marketing copy.'')]"

subsection \<open>The schemas of analyze-marketing-offer.ts\<close>

definition AnalyzeMarketingOfferInputSchema :: schema where
  "AnalyzeMarketingOfferInputSchema = ZObject
     [(''offerDetails'', ZDescribe ZString
         ''The landing page URL or a description of the marketing offer.''),
      (''inputType'', ZDescribe (ZEnum [''link'', ''text''])
         ''The type of input provided: link for a landing page URL, text for a description.''),
      (''persona'', ZDescribe ZString ''The target audience persona.'')]"

definition AnalysisItemSchema :: schema where
  "AnalysisItemSchema = ZObject
     [(''id'', ZDescribe ZString ''A unique identifier for the analysis item.''),
      (''area'', ZDescribe ZString ''The area being analyzed, e.g., 'Headline Clarity'.''),
      (''score'', ZDescribe ZNumber ''A score from 1-10 for this area.''),
      (''leak'', ZDescribe ZString ''The identified funnel leak or weakness.''),
      (''fix'', ZDescribe (ZObject
         [(''primarySuggestion'', ZDescribe ZString ''Suggestion A for A/B test.''),
          (''abTestSuggestion'', ZDescribe ZString ''Suggestion B for A/B test.'')])
         ''Suggestions for fixing the leak'')]"

definition SampleCopySchema :: schema where
  "SampleCopySchema = ZObject
     [(''platform'', ZDescribe ZString ''e.g., 'Instagram Post' or 'Short Email' ''),
      (''content'', ZDescribe ZString ''The generated marketing copy.'')]"

definition AnalyzeMarketingOfferOutputSchema :: schema where
  "AnalyzeMarketingOfferOutputSchema = ZObject
     [(''analysis'', ZDescribe (ZArray AnalysisItemSchema) ''An array of analysis items.''),
      (''sampleCopy'', ZDescribe SampleCopySchema ''Generated sample marketing copy.'')]"

section \<open>Prompt templates\<close>

text \<open>
  A prompt is a Handlebars template: literal text, \<^verbatim>\<open>{{{path}}}\<close> (inserted verbatim),
  \<^verbatim>\<open>{{path}}\<close> and \<^verbatim>\<open>{{#each key}} ... {{/each}}\<close>. How the template engine prints a value
  that is not a string (a number, say) and what it does to a string under \<^verbatim>\<open>{{path}}\<close>
  belongs to the library, so it is the parameter \<open>fmt\<close> of the renderer. A missing
  value prints as the empty string. A block \<^verbatim>\<open>{{#each key}}\<close> renders its body once for
  every element of the array under \<^verbatim>\<open>key\<close>, with the element as the context, and renders
  nothing when there is no array there.
\<close>

datatype part =
    Lit string
  | Raw "string list"
  | Esc "string list"
  | Each string "part list"

fun lookup_path :: "string list \<Rightarrow> json \<Rightarrow> json option" where
  "lookup_path [] v = Some v"
| "lookup_path (k # ks) v =
     (case field k v of None \<Rightarrow> None | Some x \<Rightarrow> lookup_path ks x)"

fun render_part :: "(json \<Rightarrow> string) \<Rightarrow> part \<Rightarrow> json \<Rightarrow> string" where
  "render_part fmt (Lit s) ctx = s"
| "render_part fmt (Raw path) ctx =
     (case lookup_path path ctx of
        None \<Rightarrow> []
      | Some (JStr s) \<Rightarrow> s
      | Some v \<Rightarrow> fmt v)"
| "render_part fmt (Esc path) ctx =
     (case lookup_path path ctx of None \<Rightarrow> [] | Some v \<Rightarrow> fmt v)"
| "render_part fmt (Each k body) ctx =
     (case field k ctx of
        Some (JArr xs) \<Rightarrow>
          concat (map (\<lambda>x. concat (map (\<lambda>b. render_part fmt b x) body)) xs)
      | _ \<Rightarrow> [])"

definition render :: "(json \<Rightarrow> string) \<Rightarrow> part list \<Rightarrow> json \<Rightarrow> string" where
  "render fmt tpl ctx = concat (map (\<lambda>b. render_part fmt b ctx) tpl)"

text \<open>
  The template of \<^verbatim>\<open>generateSocialMediaCopyPrompt\<close>. The lines that hold only
  \<^verbatim>\<open>{{#each analysis}}\<close> and \<^verbatim>\<open>{{/each}}\<close> are standalone block lines, which Handlebars
  drops together with their indentation and line break.
\<close>

definition generateSocialMediaCopyTemplate :: "part list" where
  "generateSocialMediaCopyTemplate =
    [Lit ''You are an expert marketing copywriter specializing in creating engaging social media posts.\<newline>\<newline>  Based on the following funnel analysis, target audience persona, and offer details, generate a short, engaging social media post to promote the user's offer.\<newline>  Incorporate suggested improvements for A/B testing.\<newline>\<newline>  Funnel Analysis:\<newline>'',
     Each ''analysis''
       [Lit ''  Area: '', Esc [''area''],
        Lit ''\<newline>  Score: '', Esc [''score''],
        Lit ''\<newline>  Leak: '', Esc [''leak''],
        Lit ''\<newline>  Fix Suggestion A: '', Esc [''fix'', ''primarySuggestion''],
        Lit ''\<newline>  Fix Suggestion B: '', Esc [''fix'', ''abTestSuggestion''],
        Lit ''\<newline>''],
     Lit ''\<newline>  Target Audience Persona: '', Esc [''persona''],
     Lit ''\<newline>  Offer Details: '', Esc [''offerDetails''],
     Lit ''\<newline>  Output should be in format:\<newline>  Platform: {platform}\<newline>  Content: {content}'']"

definition generateSocialMediaCopyPrompt :: "(json \<Rightarrow> string) \<Rightarrow> json \<Rightarrow> string" where
  "generateSocialMediaCopyPrompt fmt input = render fmt generateSocialMediaCopyTemplate input"

text \<open>
  The template of \<^verbatim>\<open>analyzeMarketingOfferPrompt\<close>; the function of that name below gives
  the text the prompt sends for a request.
\<close>

definition analyzeMarketingOfferTemplate :: "part list" where
  "analyzeMarketingOfferTemplate =
    [Lit ''You are an expert marketing funnel conversion analyst.\<newline>A user is providing their marketing offer details for analysis.\<newline>The user's input is: \"'',
     Raw [''offerDetails''],
     Lit ''\" ('',
     Raw [''inputType''],
     Lit '').\<newline>The target audience persona is: \"'',
     Raw [''persona''],
     Lit ''\".\<newline>\<newline>Your task is to perform a detailed analysis and provide the following:\<newline>1.  **Analysis of 2-3 key areas:** Identify critical \"leaks\". For each area (e.g., 'Headline Clarity', 'Call-to-Action Strength', 'Offer Urgency'):\<newline>    - Give it a score from 1 to 10.\<newline>    - Describe the leak.\<newline>    - Provide two distinct fix suggestions (A and B) for A/B testing.\<newline>2.  **Generate Sample Copy:** Based on your analysis, write a short, engaging social media post (e.g., for Twitter or Instagram) to promote the user's offer, incorporating your suggested improvements.\<newline>\<newline>Present your complete analysis in the structured JSON format specified.'']"

definition analyzeMarketingOfferPrompt :: "(json \<Rightarrow> string) \<Rightarrow> json \<Rightarrow> string" where
  "analyzeMarketingOfferPrompt fmt input = render fmt analyzeMarketingOfferTemplate input"

section \<open>Flows\<close>

text \<open>
  The hosted model is outside the program. A call hands it the rendered prompt and either
  throws or answers with an output value (\<open>JNull\<close> when nothing could be parsed, the
  \<^verbatim>\<open>output\<close> the source asserts with \<^verbatim>\<open>output!\<close>). The model may answer differently from
  one call to the next, so an invoker also sees how many calls came before. The calls a
  flow makes are recorded in the list of the prompts sent so far, passed through as state.
\<close>

datatype 'e reply = Throws 'e | Responds json

type_synonym 'e invoker = "nat \<Rightarrow> string \<Rightarrow> 'e reply"

datatype 'e flow_error =
    InputValidationError "issue list"
  | ModelInvocationError 'e
  | SchemaValidationError "issue list"

text \<open>\<^verbatim>\<open>ai.definePrompt\<close>: calling the prompt renders the template and calls the model once.\<close>

definition definePrompt ::
  "part list \<Rightarrow> (json \<Rightarrow> string) \<Rightarrow> 'e invoker \<Rightarrow> json \<Rightarrow> string list \<Rightarrow> 'e reply \<times> string list"
where
  "definePrompt tpl fmt invoke input sent =
     (invoke (length sent) (render fmt tpl input), sent @ [render fmt tpl input])"

text \<open>
  \<^verbatim>\<open>ai.defineFlow({inputSchema, outputSchema}, body)\<close>: the input is checked against
  \<open>inputSchema\<close> before the body runs, and what the body returns is checked against
  \<open>outputSchema\<close>. The body of both flows is
  \<^verbatim>\<open>const {output} = await prompt(input); return output!;\<close>
  so the prompt is called once, an error thrown by the call is the error the flow fails
  with, and the output is handed on without any change.
\<close>

definition defineFlow ::
  "schema \<Rightarrow> schema \<Rightarrow> (json \<Rightarrow> string list \<Rightarrow> 'e reply \<times> string list) \<Rightarrow>
   json \<Rightarrow> string list \<Rightarrow> ('e flow_error + json) \<times> string list"
where
  "defineFlow inputSchema outputSchema body input sent =
     (case validate inputSchema [] input of
        i # is \<Rightarrow> (Inl (InputValidationError (i # is)), sent)
      | [] \<Rightarrow>
          (case body input sent of
             (Throws e, sent') \<Rightarrow> (Inl (ModelInvocationError e), sent')
           | (Responds output, sent') \<Rightarrow>
               (case validate outputSchema [] output of
                  [] \<Rightarrow> (Inr output, sent')
                | j # js \<Rightarrow> (Inl (SchemaValidationError (j # js)), sent'))))"

definition generateSocialMediaCopyFlow ::
  "(json \<Rightarrow> string) \<Rightarrow> 'e invoker \<Rightarrow> json \<Rightarrow> string list \<Rightarrow> ('e flow_error + json) \<times> string list"
where
  "generateSocialMediaCopyFlow fmt invoke =
     defineFlow GenerateSocialMediaCopyInputSchema GenerateSocialMediaCopyOutputSchema
       (definePrompt generateSocialMediaCopyTemplate fmt invoke)"

definition generateSocialMediaCopy ::
  "(json \<Rightarrow> string) \<Rightarrow> 'e invoker \<Rightarrow> json \<Rightarrow> string list \<Rightarrow> ('e flow_error + json) \<times> string list"
where
  "generateSocialMediaCopy fmt invoke input sent = generateSocialMediaCopyFlow fmt invoke input sent"

definition analyzeMarketingOfferFlow ::
  "(json \<Rightarrow> string) \<Rightarrow> 'e invoker \<Rightarrow> json \<Rightarrow> string list \<Rightarrow> ('e flow_error + json) \<times> string list"
where
  "analyzeMarketingOfferFlow fmt invoke =
     defineFlow AnalyzeMarketingOfferInputSchema AnalyzeMarketingOfferOutputSchema
       (definePrompt analyzeMarketingOfferTemplate fmt invoke)"

definition analyzeMarketingOffer ::
  "(json \<Rightarrow> string) \<Rightarrow> 'e invoker \<Rightarrow> json \<Rightarrow> string list \<Rightarrow> ('e flow_error + json) \<times> string list"
where
  "analyzeMarketingOffer fmt invoke input sent = analyzeMarketingOfferFlow fmt invoke input sent"

section \<open>The client\<close>

text \<open>
  \<^verbatim>\<open>personaOptions\<close> of \<^verbatim>\<open>FunnelAnalysisForm\<close> (\<^verbatim>\<open>src/unnamed/part_005\<close>): the values the
  select box of the form offers.
\<close>

definition personaOptions :: "string list" where
  "personaOptions =
     [''General Audience'', ''SaaS Founders'', ''Busy Parents'', ''Coaches & Consultants'',
      ''E-commerce Shoppers'', ''Creative Professionals'']"

text \<open>
  A JavaScript string is a sequence of UTF-16 code units. The strings of the client are
  modelled so, because \<^verbatim>\<open>trim\<close> depends on code points beyond the 8-bit range; \<open>utf16\<close>
  embeds the text of an ASCII literal.
\<close>

type_synonym code_unit = "16 word"

definition utf16 :: "string \<Rightarrow> code_unit list" where
  "utf16 s = map of_char s"

text \<open>
  The state of the \<^verbatim>\<open>Home\<close> component (\<^verbatim>\<open>src/unnamed/part_003\<close>), one field for each
  \<^verbatim>\<open>useState\<close>.
\<close>

datatype input_type = Link | Text

record home =
  inputType :: input_type
  inputValue :: "code_unit list"
  persona :: "code_unit list"
  results :: "json option"
  error :: "code_unit list"

text \<open>
  What a \<^verbatim>\<open>catch\<close> clause can receive: an instance of \<^verbatim>\<open>Error\<close> with its message, or any
  other thrown value.
\<close>

datatype thrown = ErrorObject "code_unit list" | OtherValue

text \<open>
  \<^verbatim>\<open>String.prototype.trim\<close> removes white space and line terminators at both ends. By
  ECMAScript these are the 25 code points TAB, LF, VT, FF, CR, SPACE, NO-BREAK SPACE,
  U+1680, U+2000 to U+200A, U+2028, U+2029, U+202F, U+205F, U+3000 and U+FEFF; each is a
  single code unit.
\<close>

definition is_whitespace :: "code_unit \<Rightarrow> bool" where
  "is_whitespace c \<longleftrightarrow>
     c \<in> {0x0009, 0x000A, 0x000B, 0x000C, 0x000D, 0x0020, 0x00A0, 0x1680,
          0x2000, 0x2001, 0x2002, 0x2003, 0x2004, 0x2005, 0x2006, 0x2007, 0x2008, 0x2009,
          0x200A, 0x2028, 0x2029, 0x202F, 0x205F, 0x3000, 0xFEFF}"

definition trim :: "code_unit list \<Rightarrow> code_unit list" where
  "trim s = rev (dropWhile is_whitespace (rev (dropWhile is_whitespace s)))"

text \<open>
  \<^verbatim>\<open>handleSubmit\<close>, run to the end of the transition it starts. The server action is the
  parameter \<open>analyze\<close>, which takes the three fields \<^verbatim>\<open>offerDetails\<close>, \<^verbatim>\<open>inputType\<close> and
  \<^verbatim>\<open>persona\<close> of the request object; the second component lists the requests sent to it.
\<close>

definition handleSubmit ::
  "(code_unit list \<Rightarrow> input_type \<Rightarrow> code_unit list \<Rightarrow> thrown + json) \<Rightarrow> home \<Rightarrow>
   home \<times> (code_unit list \<times> input_type \<times> code_unit list) list"
where
  "handleSubmit analyze st =
     (if trim (inputValue st) = [] then
        (st\<lparr>error := utf16 ''Please enter a URL or describe your offer.''\<rparr>, [])
      else
        let st1 = st\<lparr>results := None, error := []\<rparr>;
            request = (inputValue st, inputType st, persona st)
        in case analyze (inputValue st) (inputType st) (persona st) of
             Inr response \<Rightarrow> (st1\<lparr>results := Some response\<rparr>, [request])
           | Inl err \<Rightarrow>
               let errorMessage =
                     (case err of
                        ErrorObject message \<Rightarrow> message
                      | OtherValue \<Rightarrow> utf16 ''An unexpected error occurred.'')
               in (st1\<lparr>error := utf16 ''An error occurred while analyzing: '' @ errorMessage
                                   @ utf16 ''. Please try again.'',
                        results := None\<rparr>, [request]))"

subsection \<open>Numbers\<close>

text \<open>
  A JavaScript \<^verbatim>\<open>number\<close> is an IEEE 754 double: a finite value, which is a rational, an
  infinity or NaN. The negative zero is identified with zero: \<^verbatim>\<open>ScoreDonut\<close> divides by
  the literal 100 only, and no other operation it uses tells the two zeros apart.

  Every arithmetic operation computes the exact result and rounds it to the nearest
  double, to the one with the even significand in a tie. For a positive \<open>a\<close>, \<open>ilog2 a\<close> is
  the integer \<open>i\<close> with \<open>2 ^ i \<le> a < 2 ^ (i + 1)\<close>. The doubles around \<open>a\<close> are the multiples
  of \<open>2 ^ e\<close> with \<open>e = ilog2 a - 52\<close> (53 significant bits), and with \<open>e = - 1074\<close> in the
  subnormal range. A rounded result of \<open>2 ^ 1024\<close> or more is an infinity.
\<close>

datatype number = Finite rat | PosInf | NegInf | NaN

definition ilog2 :: "rat \<Rightarrow> int" where
  "ilog2 a =
     (let (p, q) = quotient_of a;
          d = bitlen p - bitlen q
      in if power_int 2 d \<le> a then d else d - 1)"

definition round_half_even :: "rat \<Rightarrow> int" where
  "round_half_even y =
     (let f = \<lfloor>y\<rfloor>; r = y - of_int f
      in if r < 1 / 2 then f
         else if 1 / 2 < r then f + 1
         else if even f then f else f + 1)"

definition round_to_double :: "rat \<Rightarrow> number" where
  "round_to_double x =
     (if x = 0 then Finite 0
      else
        let a = \<bar>x\<bar>;
            e = max (- 1074) (ilog2 a - 52);
            r = of_int (round_half_even (a / power_int 2 e)) * power_int 2 e
        in if 1024 \<le> ilog2 r then (if 0 < x then PosInf else NegInf)
           else Finite (if 0 < x then r else - r))"

text \<open>The operators \<^verbatim>\<open>*\<close>, \<^verbatim>\<open>/\<close>, \<^verbatim>\<open>-\<close>, \<^verbatim>\<open><\<close> and \<^verbatim>\<open>>=\<close> on numbers.\<close>

fun mul :: "number \<Rightarrow> number \<Rightarrow> number" where
  "mul NaN y = NaN"
| "mul x NaN = NaN"
| "mul (Finite x) (Finite y) = round_to_double (x * y)"
| "mul (Finite x) PosInf = (if x = 0 then NaN else if 0 < x then PosInf else NegInf)"
| "mul (Finite x) NegInf = (if x = 0 then NaN else if 0 < x then NegInf else PosInf)"
| "mul PosInf (Finite y) = (if y = 0 then NaN else if 0 < y then PosInf else NegInf)"
| "mul NegInf (Finite y) = (if y = 0 then NaN else if 0 < y then NegInf else PosInf)"
| "mul PosInf PosInf = PosInf"
| "mul PosInf NegInf = NegInf"
| "mul NegInf PosInf = NegInf"
| "mul NegInf NegInf = PosInf"

fun divide_num :: "number \<Rightarrow> number \<Rightarrow> number" where
  "divide_num NaN y = NaN"
| "divide_num x NaN = NaN"
| "divide_num (Finite x) (Finite y) =
     (if y = 0 then (if x = 0 then NaN else if 0 < x then PosInf else NegInf)
      else round_to_double (x / y))"
| "divide_num (Finite x) PosInf = Finite 0"
| "divide_num (Finite x) NegInf = Finite 0"
| "divide_num PosInf (Finite y) = (if 0 \<le> y then PosInf else NegInf)"
| "divide_num NegInf (Finite y) = (if 0 \<le> y then NegInf else PosInf)"
| "divide_num PosInf y = NaN"
| "divide_num NegInf y = NaN"

fun sub :: "number \<Rightarrow> number \<Rightarrow> number" where
  "sub NaN y = NaN"
| "sub x NaN = NaN"
| "sub (Finite x) (Finite y) = round_to_double (x - y)"
| "sub (Finite x) PosInf = NegInf"
| "sub (Finite x) NegInf = PosInf"
| "sub PosInf PosInf = NaN"
| "sub PosInf y = PosInf"
| "sub NegInf NegInf = NaN"
| "sub NegInf y = NegInf"

fun lt :: "number \<Rightarrow> number \<Rightarrow> bool" where
  "lt NaN y = False"
| "lt x NaN = False"
| "lt (Finite x) (Finite y) = (x < y)"
| "lt (Finite x) PosInf = True"
| "lt (Finite x) NegInf = False"
| "lt PosInf y = False"
| "lt NegInf NegInf = False"
| "lt NegInf y = True"

definition ge :: "number \<Rightarrow> number \<Rightarrow> bool" where
  "ge x y \<longleftrightarrow> x \<noteq> NaN \<and> y \<noteq> NaN \<and> \<not> lt x y"

text \<open>\<^verbatim>\<open>Math.PI\<close> is the double nearest to \<open>\<pi>\<close>, with the bits \<^verbatim>\<open>0x400921FB54442D18\<close>.\<close>

definition Math_PI :: number where
  "Math_PI = Finite (884279719003555 / 2 ^ 48)"

subsection \<open>ScoreDonut\<close>

definition percentage :: "number \<Rightarrow> number" where
  "percentage score = mul score (Finite 10)"

definition circumference :: number where
  "circumference = mul (mul (Finite 2) Math_PI) (Finite 18)"

definition offset :: "number \<Rightarrow> number" where
  "offset score =
     sub circumference (mul (divide_num (percentage score) (Finite 100)) circumference)"

definition colorClass :: "number \<Rightarrow> string" where
  "colorClass score =
     (let c0 = ''text-green-400'';
          c1 = (if lt score (Finite 7) then ''text-yellow-400'' else c0);
          c2 = (if lt score (Finite 4) then ''text-red-400'' else c1)
      in c2)"

section \<open>The model invoker\<close>

text \<open>
  Modelled from the spec: the failures of the Model Invoker. The flows reach the model
  through the object \<^verbatim>\<open>ai\<close> of \<^verbatim>\<open>src/ai/genkit.ts\<close>, which is not among the source
  files. The specification names four ways a call can fail and has the invoker report
  the failure together with a flag that says whether it is retryable.
\<close>

datatype failure_cause = Timeout | TransportFailure | QuotaExhausted | SafetyBlock

record invocation_error =
  cause :: failure_cause
  retryable :: bool

text \<open>
  Modelled from the spec: the classification made by the Model Invoker, which is missing
  with \<^verbatim>\<open>src/ai/genkit.ts\<close>. A timeout or a transport failure (a transient network or
  service issue) is retryable; quota exhaustion and a safety block are not.
\<close>

definition classify :: "failure_cause \<Rightarrow> invocation_error" where
  "classify c = \<lparr>cause = c, retryable = (c = Timeout \<or> c = TransportFailure)\<rparr>"

section \<open>Sample data\<close>

text \<open>Requests: the two scenarios of the specification and one with an unlisted persona.\<close>

definition signup_request :: json where
  "signup_request = JObj [(''offerDetails'', JStr ''https://example.com/signup''),
                          (''inputType'', JStr ''link''),
                          (''persona'', JStr ''SaaS Founders'')]"

definition short_request :: json where
  "short_request = JObj [(''offerDetails'', JStr ''short''),
                         (''inputType'', JStr ''text''),
                         (''persona'', JStr ''General Audience'')]"

definition martian_request :: json where
  "martian_request = JObj [(''offerDetails'', JStr ''https://example.com/signup''),
                           (''inputType'', JStr ''link''),
                           (''persona'', JStr ''Martian Settlers'')]"

text \<open>Outputs a model can produce.\<close>

definition headline_item :: json where
  "headline_item = JObj
     [(''id'', JStr ''analysis_001''),
      (''area'', JStr ''Headline Clarity''),
      (''score'', JNum 7),
      (''leak'', JStr ''Headline could be more specific about the main benefit''),
      (''fix'', JObj
         [(''primarySuggestion'', JStr ''Include specific numbers or outcomes in the headline''),
          (''abTestSuggestion'', JStr ''Use a question format to engage curiosity'')])]"

definition cta_item :: json where
  "cta_item = JObj
     [(''id'', JStr ''analysis_002''),
      (''area'', JStr ''Call-to-Action Strength''),
      (''score'', JNum 5),
      (''leak'', JStr ''CTA button text is generic and lacks urgency''),
      (''fix'', JObj
         [(''primarySuggestion'', JStr ''Use action-oriented text like Start Your Free Trial''),
          (''abTestSuggestion'', JStr ''Add time-sensitive language like Get Instant Access'')])]"

definition instagram_copy :: json where
  "instagram_copy = JObj
     [(''platform'', JStr ''Instagram Post''),
      (''content'', JStr ''Transform your conversion rates with clear insights and tested fixes.'')]"

definition full_output :: json where
  "full_output = JObj [(''analysis'', JArr [headline_item, cta_item]),
                       (''sampleCopy'', instagram_copy)]"

definition eleven_item :: json where
  "eleven_item = JObj
     [(''id'', JStr ''a''),
      (''area'', JStr ''Headline Clarity''),
      (''score'', JNum 11),
      (''leak'', JStr ''vague''),
      (''fix'', JObj
         [(''primarySuggestion'', JStr ''Rewrite it''),
          (''abTestSuggestion'', JStr ''Rewrite it'')])]"

definition lone_output :: json where
  "lone_output = JObj [(''analysis'', JArr [eleven_item]),
                       (''sampleCopy'', instagram_copy)]"

definition terse_output :: json where
  "terse_output = JObj
     [(''analysis'', JArr [headline_item, cta_item]),
      (''sampleCopy'', JObj [(''platform'', JStr ''Instagram Post''), (''content'', JStr ''Hi'')])]"

text \<open>
  Invokers: one that always answers with the same output, one that throws the same
  error at every call, and one whose first answer cannot be parsed and whose later
  answers are well-formed.
\<close>

definition answers :: "json \<Rightarrow> invocation_error invoker" where
  "answers output n prompt = Responds output"

definition fails_with :: "invocation_error \<Rightarrow> invocation_error invoker" where
  "fails_with e n prompt = Throws e"

definition second_time_lucky :: "invocation_error invoker" where
  "second_time_lucky n prompt = (if n = 0 then Responds JNull else Responds full_output)"

text \<open>
  A formatter that prints a string as it is, the scores 5 and 7 in decimal and nothing
  for any other value.
\<close>

definition plain_fmt :: "json \<Rightarrow> string" where
  "plain_fmt v =
     (case v of
        JStr s \<Rightarrow> s
      | JNum n \<Rightarrow> (if n = 7 then ''7'' else if n = 5 then ''5'' else [])
      | _ \<Rightarrow> [])"

text \<open>
  A server action, as the client sees it, that throws an \<^verbatim>\<open>Error\<close>; a form whose input is
  a space, an ideographic space, a tab and a byte order mark; and a form with the URL of
  the first scenario.
\<close>

definition action_throwing ::
  "code_unit list \<Rightarrow> code_unit list \<Rightarrow> input_type \<Rightarrow> code_unit list \<Rightarrow> thrown + json"
where
  "action_throwing message offer kind audience = Inl (ErrorObject message)"

definition blank_form :: home where
  "blank_form = \<lparr>inputType = Link, inputValue = [0x0020, 0x3000, 0x0009, 0xFEFF],
                  persona = utf16 ''General Audience'',
                  results = Some full_output, error = []\<rparr>"

definition filled_form :: home where
  "filled_form = \<lparr>inputType = Link, inputValue = utf16 ''https://example.com/signup'',
                   persona = utf16 ''SaaS Founders'', results = Some full_output, error = []\<rparr>"

text \<open>
  Further requests: one with an offer of 2001 characters, one whose offer and persona are
  numbers, the first scenario with a number for its persona and with no persona at all,
  and the first scenario with its keys in another order and a key the schema does not
  know.
\<close>

definition long_request :: json where
  "long_request = JObj [(''offerDetails'', JStr (replicate 2001 (CHR ''x''))),
                        (''inputType'', JStr ''text''),
                        (''persona'', JStr ''General Audience'')]"

definition numeric_request :: json where
  "numeric_request = JObj [(''offerDetails'', JNum 5),
                           (''inputType'', JStr ''text''),
                           (''persona'', JNum 3)]"

definition numeric_persona_request :: json where
  "numeric_persona_request = JObj [(''offerDetails'', JStr ''https://example.com/signup''),
                                   (''inputType'', JStr ''link''),
                                   (''persona'', JNum 3)]"

definition no_persona_request :: json where
  "no_persona_request = JObj [(''offerDetails'', JStr ''https://example.com/signup''),
                              (''inputType'', JStr ''link'')]"

definition reordered_signup_request :: json where
  "reordered_signup_request = JObj [(''persona'', JStr ''SaaS Founders''),
                                    (''campaign'', JBool True),
                                    (''inputType'', JStr ''link''),
                                    (''offerDetails'', JStr ''https://example.com/signup'')]"

text \<open>Requests for the copy generation flow, built from the items above.\<close>

definition copy_request :: json where
  "copy_request = JObj [(''analysis'', JArr [headline_item, cta_item]),
                        (''persona'', JStr ''SaaS Founders''),
                        (''offerDetails'', JStr ''https://example.com/signup'')]"

definition reordered_copy_request :: json where
  "reordered_copy_request = JObj [(''offerDetails'', JStr ''https://example.com/signup''),
                                  (''campaign'', JBool True),
                                  (''persona'', JStr ''SaaS Founders''),
                                  (''analysis'', JArr [headline_item, cta_item])]"

section \<open>Properties of validation\<close>

text \<open>Whether a value is accepted does not depend on the path it is reported under.\<close>

lemma take_one_Nil_iff: "take 1 xs = [] \<longleftrightarrow> xs = []"
  by (cases xs) auto

lemma validate_path_irrelevant:
  "validate s p v = [] \<Longrightarrow> validate s q v = []"
proof (induction s p v arbitrary: q rule: validate.induct)
  case (1 p v)
  then show ?case by (cases v) auto
next
  case (2 p v)
  then show ?case by (cases v) auto
next
  case (3 vs p v)
  then show ?case by (cases v) (auto split: if_splits)
next
  case (4 s p v)
  show ?case
  proof (cases v)
    case (JArr xs)
    have "validate s (q @ [Index i]) x = []" if "(i, x) \<in> set (enumerate 0 xs)" for i x
    proof -
      from "4.prems" JArr that have "validate s (p @ [Index i]) x = []"
        by (fastforce simp: take_one_Nil_iff)
      with "4.IH"[OF JArr that refl] show ?thesis .
    qed
    with JArr show ?thesis by (auto simp: take_one_Nil_iff)
  qed (use "4.prems" in auto)
next
  case (5 fs p v)
  show ?case
  proof (cases v)
    case (JObj kvs)
    from "5.prems" JObj have none: "filter (\<lambda>k. map_of kvs k = None) (map fst fs) = []"
      by (auto split: list.splits)
    have "(case map_of kvs k of None \<Rightarrow> []
            | Some x \<Rightarrow> validate s (q @ [Key k]) x) = []" if "(k, s) \<in> set fs" for k s
    proof (cases "map_of kvs k")
      case None
      then show ?thesis by simp
    next
      case (Some x)
      from "5.prems" JObj none that Some have "validate s (p @ [Key k]) x = []"
        by (fastforce simp: take_one_Nil_iff)
      from "5.IH"[OF JObj none that refl Some this] Some show ?thesis by simp
    qed
    with JObj none show ?thesis by (auto simp: take_one_Nil_iff)
  qed (use "5.prems" in auto)
next
  case (6 s d p v)
  then show ?case by simp
qed

lemma validate_array_iff:
  "validate (ZArray s) p (JArr xs) = [] \<longleftrightarrow> (\<forall>x\<in>set xs. validate s [] x = [])"
proof
  assume a: "validate (ZArray s) p (JArr xs) = []"
  show "\<forall>x\<in>set xs. validate s [] x = []"
  proof
    fix x assume "x \<in> set xs"
    then obtain i where "i < length xs" "xs ! i = x" by (auto simp: in_set_conv_nth)
    then have "(i, x) \<in> set (enumerate 0 xs)" by (simp add: in_set_enumerate_eq)
    with a have "validate s (p @ [Index i]) x = []" by (fastforce simp: take_one_Nil_iff)
    then show "validate s [] x = []" by (rule validate_path_irrelevant)
  qed
next
  assume a: "\<forall>x\<in>set xs. validate s [] x = []"
  have "validate s (p @ [Index i]) x = []" if "(i, x) \<in> set (enumerate 0 xs)" for i x
  proof -
    from that have "x \<in> set xs" by (auto simp: in_set_enumerate_eq)
    with a have "validate s [] x = []" by blast
    then show ?thesis by (rule validate_path_irrelevant)
  qed
  then show "validate (ZArray s) p (JArr xs) = []" by (auto simp: take_one_Nil_iff)
qed

lemma validate_string_iff: "validate ZString p v = [] \<longleftrightarrow> (\<exists>s. v = JStr s)"
  by (cases v) auto

lemma validate_number_iff: "validate ZNumber p v = [] \<longleftrightarrow> (\<exists>n. v = JNum n)"
  by (cases v) auto

lemma validate_enum_iff: "validate (ZEnum vs) p v = [] \<longleftrightarrow> (\<exists>s. v = JStr s \<and> s \<in> set vs)"
  by (cases v) auto

lemma validate_describe_iff: "validate (ZDescribe s d) p v = [] \<longleftrightarrow> validate s [] v = []"
  using validate_path_irrelevant[of s p v "[]"] validate_path_irrelevant[of s "[]" v p] by auto

lemma validate_object_iff:
  "validate (ZObject ((k0, s0) # fs)) p v = [] \<longleftrightarrow>
   (\<forall>(k, s)\<in>set ((k0, s0) # fs). \<exists>x. field k v = Some x \<and> validate s [] x = [])"
proof (cases v)
  case (JObj kvs)
  let ?fs = "(k0, s0) # fs"
  have *: "(case map_of kvs k of None \<Rightarrow> []
            | Some x \<Rightarrow> validate s (p @ [Key k]) x) = [] \<longleftrightarrow>
           (\<exists>x. field k v = Some x \<and> validate s [] x = [])"
    if "map_of kvs k \<noteq> None" for k s
    using that validate_path_irrelevant[of s "p @ [Key k]" _ "[]"]
          validate_path_irrelevant[of s "[]" _ "p @ [Key k]"]
    by (cases "map_of kvs k") (auto simp: field_def JObj)
  show ?thesis
  proof (cases "filter (\<lambda>k. map_of kvs k = None) (map fst ?fs)")
    case Nil
    then have "\<forall>k\<in>set (map fst ?fs). map_of kvs k \<noteq> None"
      by (simp only: filter_empty_conv)
    then have present: "map_of kvs k \<noteq> None" if "(k, s) \<in> set ?fs" for k s
      using that by (metis fst_conv image_eqI set_map)
    have "validate (ZObject ?fs) p v = [] \<longleftrightarrow>
          (\<forall>(k, s)\<in>set ?fs. (case map_of kvs k of None \<Rightarrow> []
            | Some x \<Rightarrow> validate s (p @ [Key k]) x) = [])"
      using Nil unfolding JObj validate.simps json.case
      by (simp only: list.case take_one_Nil_iff concat_eq_Nil_conv set_map ball_simps
            case_prod_unfold)
    also have "\<dots> \<longleftrightarrow> (\<forall>(k, s)\<in>set ?fs. \<exists>x. field k v = Some x \<and> validate s [] x = [])"
    proof (intro ball_cong refl)
      fix x assume m: "x \<in> set ?fs"
      obtain k s where x: "x = (k, s)" by (cases x)
      with m have "(k, s) \<in> set ?fs" by simp
      from *[OF present[OF this]]
      show "(case x of (k, s) \<Rightarrow> (case map_of kvs k of None \<Rightarrow> []
                | Some x \<Rightarrow> validate s (p @ [Key k]) x) = []) =
            (case x of (k, s) \<Rightarrow> \<exists>x. field k v = Some x \<and> validate s [] x = [])"
        unfolding x prod.case .
    qed
    finally show ?thesis .
  next
    case (Cons k ks)
    then have "k \<in> set (filter (\<lambda>k. map_of kvs k = None) (map fst ?fs))" by simp
    then have "k \<in> fst ` set ?fs" and "map_of kvs k = None"
      unfolding set_filter set_map by blast+
    then obtain s where ks: "(k, s) \<in> set ?fs" and none: "map_of kvs k = None" by force
    from none have "\<not> (\<exists>x. field k v = Some x \<and> validate s [] x = [])"
      by (simp add: field_def JObj del: validate.simps)
    with ks have "\<not> (\<forall>(k, s)\<in>set ?fs. \<exists>x. field k v = Some x \<and> validate s [] x = [])"
      by blast
    moreover have "validate (ZObject ?fs) p v \<noteq> []"
      using Cons unfolding JObj validate.simps json.case by simp
    ultimately show ?thesis by blast
  qed
qed (auto simp: field_def)

lemma item_schema_iff:
  "validate AnalysisItemSchema p v = [] \<longleftrightarrow>
   (\<exists>i a n l fx s t. field ''id'' v = Some (JStr i) \<and> field ''area'' v = Some (JStr a) \<and>
      field ''score'' v = Some (JNum n) \<and> field ''leak'' v = Some (JStr l) \<and>
      field ''fix'' v = Some fx \<and>
      field ''primarySuggestion'' fx = Some (JStr s) \<and>
      field ''abTestSuggestion'' fx = Some (JStr t))"
  unfolding AnalysisItemSchema_def validate_object_iff
  by (auto simp add: validate_describe_iff validate_object_iff validate_string_iff
        validate_number_iff simp del: validate.simps)

lemma generate_item_schema_iff:
  "validate GenerateItemSchema p v = [] \<longleftrightarrow>
   (\<exists>a n l fx s t. field ''area'' v = Some (JStr a) \<and>
      field ''score'' v = Some (JNum n) \<and> field ''leak'' v = Some (JStr l) \<and>
      field ''fix'' v = Some fx \<and>
      field ''primarySuggestion'' fx = Some (JStr s) \<and>
      field ''abTestSuggestion'' fx = Some (JStr t))"
  unfolding GenerateItemSchema_def validate_object_iff
  by (auto simp add: validate_describe_iff validate_object_iff validate_string_iff
        validate_number_iff simp del: validate.simps)


lemma validate_array_any_iff:
  "validate (ZArray s) p v = [] \<longleftrightarrow> (\<exists>xs. v = JArr xs \<and> (\<forall>x\<in>set xs. validate s [] x = []))"
proof (cases v)
  case (JArr xs)
  then show ?thesis using validate_array_iff[of s p xs] by simp
qed auto

lemma input_schema_iff:
  "validate AnalyzeMarketingOfferInputSchema p v = [] \<longleftrightarrow>
   (\<exists>od it ps. field ''offerDetails'' v = Some (JStr od) \<and>
      field ''inputType'' v = Some (JStr it) \<and> (it = ''link'' \<or> it = ''text'') \<and>
      field ''persona'' v = Some (JStr ps))"
  unfolding AnalyzeMarketingOfferInputSchema_def validate_object_iff
  by (auto simp add: validate_describe_iff validate_string_iff validate_enum_iff
        simp del: validate.simps)

lemma output_schema_iff:
  "validate AnalyzeMarketingOfferOutputSchema p v = [] \<longleftrightarrow>
   (\<exists>items copy pf c. field ''analysis'' v = Some (JArr items) \<and>
      (\<forall>item\<in>set items. validate AnalysisItemSchema [] item = []) \<and>
      field ''sampleCopy'' v = Some copy \<and>
      field ''platform'' copy = Some (JStr pf) \<and> field ''content'' copy = Some (JStr c))"
  unfolding AnalyzeMarketingOfferOutputSchema_def SampleCopySchema_def validate_object_iff
  by (auto simp add: validate_describe_iff validate_object_iff validate_string_iff
        validate_array_any_iff simp del: validate.simps)

lemma generate_input_schema_iff:
  "validate GenerateSocialMediaCopyInputSchema p v = [] \<longleftrightarrow>
   (\<exists>items ps od. field ''analysis'' v = Some (JArr items) \<and>
      (\<forall>item\<in>set items. validate GenerateItemSchema [] item = []) \<and>
      field ''persona'' v = Some (JStr ps) \<and> field ''offerDetails'' v = Some (JStr od))"
  unfolding GenerateSocialMediaCopyInputSchema_def validate_object_iff
  by (auto simp add: validate_describe_iff validate_string_iff
        validate_array_any_iff simp del: validate.simps)

lemma defineFlow_rejects:
  "validate inS [] input \<noteq> [] \<Longrightarrow>
   defineFlow inS outS body input sent = (Inl (InputValidationError (validate inS [] input)), sent)"
  by (cases "validate inS [] input") (auto simp: defineFlow_def)

lemma defineFlow_accepts:
  "validate inS [] input = [] \<Longrightarrow>
   defineFlow inS outS (definePrompt tpl fmt invoke) input sent =
     (case invoke (length sent) (render fmt tpl input) of
        Throws e \<Rightarrow> (Inl (ModelInvocationError e), sent @ [render fmt tpl input])
      | Responds output \<Rightarrow>
          (if validate outS [] output = [] then (Inr output, sent @ [render fmt tpl input])
           else (Inl (SchemaValidationError (validate outS [] output)), sent @ [render fmt tpl input])))"
  by (auto simp: defineFlow_def definePrompt_def split: reply.splits list.splits)

lemma analyze_rejects:
  "validate AnalyzeMarketingOfferInputSchema [] input \<noteq> [] \<Longrightarrow>
   analyzeMarketingOffer fmt invoke input sent =
     (Inl (InputValidationError (validate AnalyzeMarketingOfferInputSchema [] input)), sent)"
  by (simp add: analyzeMarketingOffer_def analyzeMarketingOfferFlow_def defineFlow_rejects)

lemma analyze_accepts:
  "validate AnalyzeMarketingOfferInputSchema [] input = [] \<Longrightarrow>
   analyzeMarketingOffer fmt invoke input sent =
     (case invoke (length sent) (analyzeMarketingOfferPrompt fmt input) of
        Throws e \<Rightarrow> (Inl (ModelInvocationError e), sent @ [analyzeMarketingOfferPrompt fmt input])
      | Responds output \<Rightarrow>
          (if validate AnalyzeMarketingOfferOutputSchema [] output = []
           then (Inr output, sent @ [analyzeMarketingOfferPrompt fmt input])
           else (Inl (SchemaValidationError (validate AnalyzeMarketingOfferOutputSchema [] output)),
                 sent @ [analyzeMarketingOfferPrompt fmt input])))"
  by (simp add: analyzeMarketingOffer_def analyzeMarketingOfferFlow_def defineFlow_accepts
        analyzeMarketingOfferPrompt_def split: reply.splits)

lemma signup_request_valid: "validate AnalyzeMarketingOfferInputSchema [] signup_request = []"
  by (simp add: input_schema_iff signup_request_def field_def)

lemma short_request_valid: "validate AnalyzeMarketingOfferInputSchema [] short_request = []"
  by (simp add: input_schema_iff short_request_def field_def)

lemma martian_request_valid: "validate AnalyzeMarketingOfferInputSchema [] martian_request = []"
  by (simp add: input_schema_iff martian_request_def field_def)

lemma headline_item_valid: "validate AnalysisItemSchema [] headline_item = []"
  by (simp add: item_schema_iff headline_item_def field_def)

lemma cta_item_valid: "validate AnalysisItemSchema [] cta_item = []"
  by (simp add: item_schema_iff cta_item_def field_def)

lemma eleven_item_valid: "validate AnalysisItemSchema [] eleven_item = []"
  by (simp add: item_schema_iff eleven_item_def field_def)

lemma full_output_valid: "validate AnalyzeMarketingOfferOutputSchema [] full_output = []"
  by (simp add: output_schema_iff full_output_def instagram_copy_def field_def
        headline_item_valid cta_item_valid)

lemma lone_output_valid: "validate AnalyzeMarketingOfferOutputSchema [] lone_output = []"
  by (simp add: output_schema_iff lone_output_def instagram_copy_def field_def eleven_item_valid)

lemma terse_output_valid: "validate AnalyzeMarketingOfferOutputSchema [] terse_output = []"
  by (simp add: output_schema_iff terse_output_def field_def headline_item_valid cta_item_valid)

lemma all_dropWhile_iff: "(\<forall>x\<in>set (dropWhile P s). P x) \<longleftrightarrow> (\<forall>x\<in>set s. P x)"
  by (induction s) auto

lemma trim_empty_iff: "trim s = [] \<longleftrightarrow> (\<forall>c\<in>set s. is_whitespace c)"
  by (simp add: trim_def all_dropWhile_iff)

lemma item_schema_compatible:
  "validate AnalysisItemSchema [] x = [] \<Longrightarrow> validate GenerateItemSchema [] x = []"
  unfolding item_schema_iff generate_item_schema_iff by blast

section \<open>Properties of rounding\<close>

text \<open>
  \<open>ilog2\<close> is the integer logarithm it is meant to be; rounding moves a value by at most
  half a unit in the last place and, away from the overflow range, gives a finite
  double; the offset of the donut is then within \<open>2 ^ - 43\<close> of the exact value for scores
  of magnitude up to 10.
\<close>

lemma two_power_nat_rat:
  "0 \<le> k \<Longrightarrow> (of_int (2 ^ nat k) :: rat) = power_int 2 k"
  by (simp add: power_int_def)

lemma ilog2_bounds:
  assumes "0 < a"
  shows "power_int 2 (ilog2 a) \<le> a \<and> a < power_int 2 (ilog2 a + 1)"
proof -
  obtain p q where pq: "quotient_of a = (p, q)" by (cases "quotient_of a")
  then have q: "0 < q" and a: "a = of_int p / of_int q"
    by (simp_all add: quotient_of_denom_pos quotient_of_div)
  from a assms q have p: "0 < p" by (simp add: zero_less_divide_iff)
  define bp where "bp = bitlen p"
  define bq where "bq = bitlen q"
  from bitlen_bounds[OF p] have p1: "2 ^ nat (bp - 1) \<le> p" and p2: "p < 2 ^ nat bp"
    by (simp_all add: bp_def)
  from bitlen_bounds[OF q] have q1: "2 ^ nat (bq - 1) \<le> q" and q2: "q < 2 ^ nat bq"
    by (simp_all add: bq_def)
  have bp: "1 \<le> bp"
  proof (rule ccontr)
    assume "\<not> 1 \<le> bp"
    with bitlen_nonneg[of p] have "bp = 0" by (simp add: bp_def)
    with p2 p show False by simp
  qed
  have bq: "1 \<le> bq"
  proof (rule ccontr)
    assume "\<not> 1 \<le> bq"
    with bitlen_nonneg[of q] have "bq = 0" by (simp add: bq_def)
    with q2 q show False by simp
  qed
  have P1: "power_int 2 (bp - 1) \<le> (of_int p :: rat)"
    using p1 bp two_power_nat_rat[of "bp - 1"] by (metis diff_ge_0_iff_ge of_int_le_iff)
  have P2: "(of_int p :: rat) < power_int 2 bp"
    using p2 bp two_power_nat_rat[of bp] by (metis of_int_less_iff order_trans zero_le_one)
  have Q1: "power_int 2 (bq - 1) \<le> (of_int q :: rat)"
    using q1 bq two_power_nat_rat[of "bq - 1"] by (metis diff_ge_0_iff_ge of_int_le_iff)
  have Q2: "(of_int q :: rat) < power_int 2 bq"
    using q2 bq two_power_nat_rat[of bq] by (metis of_int_less_iff order_trans zero_le_one)
  have qpos: "0 < (of_int q :: rat)" using q by simp
  have ppos: "0 < (of_int p :: rat)" using p by simp
  define d where "d = bp - bq"
  have lower: "power_int 2 (d - 1) < a"
  proof -
    have "power_int 2 (d - 1) * of_int q < power_int 2 (d - 1) * power_int (2::rat) bq"
      using Q2 by (intro mult_strict_left_mono) simp_all
    also have "\<dots> = power_int 2 (bp - 1)"
      by (simp add: d_def flip: power_int_add)
    also have "\<dots> \<le> of_int p" by (rule P1)
    finally show ?thesis using qpos by (simp add: a pos_less_divide_eq)
  qed
  have upper: "a < power_int 2 (d + 1)"
  proof -
    have "of_int p < power_int (2::rat) bp" by (rule P2)
    also have "\<dots> = power_int 2 (d + 1) * power_int 2 (bq - 1)"
      by (simp add: d_def flip: power_int_add)
    also have "\<dots> \<le> power_int 2 (d + 1) * of_int q"
      using Q1 by (intro mult_left_mono) simp_all
    finally show ?thesis using qpos by (simp add: a pos_divide_less_eq)
  qed
  have il: "ilog2 a = (if power_int 2 d \<le> a then d else d - 1)"
    by (simp add: ilog2_def pq d_def bp_def bq_def Let_def)
  show ?thesis
  proof (cases "power_int 2 d \<le> a")
    case True
    with il upper show ?thesis by simp
  next
    case False
    with il lower show ?thesis by simp
  qed
qed

lemma round_half_even_error: "\<bar>of_int (round_half_even y) - y\<bar> \<le> 1 / 2"
proof -
  have "of_int \<lfloor>y\<rfloor> \<le> y" "y < of_int \<lfloor>y\<rfloor> + 1"
    by linarith+
  then show ?thesis
    by (auto simp: round_half_even_def Let_def)
qed

lemma ilog2_zero: "ilog2 0 = - 2"
  by code_simp

lemma round_half_even_nonneg: "0 \<le> y \<Longrightarrow> 0 \<le> round_half_even y"
  using round_half_even_error[of y] by linarith

lemma round_to_double_error:
  assumes "\<bar>x\<bar> \<le> 2 ^ 1000"
  shows "\<exists>r. round_to_double x = Finite r \<and> \<bar>r - x\<bar> \<le> (\<bar>x\<bar> + 1) / 2 ^ 53"
proof (cases "x = 0")
  case True
  then show ?thesis by (simp add: round_to_double_def)
next
  case False
  define a where "a = \<bar>x\<bar>"
  define e where "e = max (- 1074) (ilog2 a - 52)"
  define P :: rat where "P = power_int 2 e"
  define m where "m = round_half_even (a / P)"
  define r where "r = of_int m * P"
  from False have a: "0 < a" by (simp add: a_def)
  have P: "0 < P" by (simp add: P_def)
  have "\<bar>of_int m - a / P\<bar> \<le> 1 / 2"
    unfolding m_def by (rule round_half_even_error)
  then have "\<bar>of_int m - a / P\<bar> * P \<le> 1 / 2 * P"
    using P by (intro mult_right_mono) simp_all
  moreover have "\<bar>of_int m - a / P\<bar> * P = \<bar>r - a\<bar>"
  proof -
    have "\<bar>of_int m - a / P\<bar> * P = \<bar>(of_int m - a / P) * P\<bar>"
      using P by (simp add: abs_mult)
    also have "(of_int m - a / P) * P = r - a"
      using P by (simp add: r_def field_simps)
    finally show ?thesis .
  qed
  ultimately have ra: "\<bar>r - a\<bar> \<le> P / 2" by simp
  have half: "P / 2 \<le> (a + 1) / 2 ^ 53"
  proof (cases "ilog2 a - 52 \<le> - 1074")
    case True
    then have "e = - 1074" by (simp add: e_def)
    then have "P \<le> power_int 2 (- 52)"
      unfolding P_def by (simp only:) (intro power_int_increasing, simp_all)
    then have "P / 2 \<le> 1 / 2 ^ 53" by (simp add: power_int_minus field_simps)
    also have "\<dots> \<le> (a + 1) / 2 ^ 53" using a by (simp add: field_simps)
    finally show ?thesis .
  next
    case False
    then have "e = ilog2 a - 52" by (simp add: e_def)
    then have "P = power_int 2 (ilog2 a) / 2 ^ 52"
      by (simp add: P_def power_int_diff)
    also have "\<dots> \<le> a / 2 ^ 52"
      using ilog2_bounds[OF a] by (simp add: divide_right_mono)
    finally have "P / 2 \<le> a / 2 ^ 53" by simp
    also have "\<dots> \<le> (a + 1) / 2 ^ 53" by (simp add: field_simps)
    finally show ?thesis .
  qed
  have m0: "0 \<le> m"
    unfolding m_def using a P by (intro round_half_even_nonneg) simp
  then have r0: "0 \<le> r" using P by (simp add: r_def)
  have small: "ilog2 r < 1024"
  proof (cases "r = 0")
    case True
    then show ?thesis by (simp add: ilog2_zero)
  next
    case False
    with r0 have "0 < r" by simp
    from ilog2_bounds[OF this] have "power_int 2 (ilog2 r) \<le> r" by simp
    also have "r \<le> a + (a + 1) / 2 ^ 53" using ra half by linarith
    also have "\<dots> \<le> 2 ^ 1000 + (2 ^ 1000 + 1) / 2 ^ 53"
      using assms by (simp add: a_def field_simps)
    also have "\<dots> < power_int 2 1001" by simp
    finally have "power_int (2::rat) (ilog2 r) < power_int 2 1001" .
    then have "ilog2 r < 1001" by (rule power_int_le_imp_less_exp[rotated]) simp_all
    then show ?thesis by simp
  qed
  have val: "round_to_double x = Finite (if 0 < x then r else - r)"
    using \<open>x \<noteq> 0\<close> small
    by (simp add: round_to_double_def Let_def a_def e_def P_def m_def r_def)
  have "\<bar>(if 0 < x then r else - r) - x\<bar> = \<bar>r - a\<bar>"
    using \<open>x \<noteq> 0\<close> by (auto simp: a_def)
  with ra half val show ?thesis by (simp add: a_def)
qed

lemma round_to_double_within:
  assumes "\<bar>x\<bar> \<le> k" and "k \<le> 2 ^ 1000"
  shows "\<exists>r. round_to_double x = Finite r \<and> \<bar>r - x\<bar> \<le> (k + 1) / 2 ^ 53"
proof -
  from assms have "\<bar>x\<bar> \<le> 2 ^ 1000" by simp
  from round_to_double_error[OF this] obtain r where
    "round_to_double x = Finite r" "\<bar>r - x\<bar> \<le> (\<bar>x\<bar> + 1) / 2 ^ 53" by blast
  moreover have "(\<bar>x\<bar> + 1) / 2 ^ 53 \<le> (k + 1) / 2 ^ 53"
    using assms(1) by (simp add: divide_right_mono)
  ultimately show ?thesis by force
qed

lemma circumference_value: "circumference = Finite (7958517471031995 / 2 ^ 46)"
  by code_simp

lemma offset_error:
  assumes "\<bar>s\<bar> \<le> 10"
  shows "\<exists>r. offset (Finite s) = Finite r \<and>
             \<bar>r - 7958517471031995 / 2 ^ 46 * (1 - s / 10)\<bar> \<le> 1 / 2 ^ 43"
proof -
  define c :: rat where "c = 7958517471031995 / 2 ^ 46"
  have c: "113 \<le> c" "c \<le> 114" by (simp_all add: c_def)
  define u :: rat where "u = 1 / 2 ^ 53"
  have u: "0 < u" "u \<le> 1 / 1000000" by (simp_all add: u_def)
  have "\<bar>s * 10\<bar> \<le> 100" using assms by simp
  from round_to_double_within[OF this] obtain p where
    p: "mul (Finite s) (Finite 10) = Finite p" and pe: "\<bar>p - s * 10\<bar> \<le> 101 * u"
    by (auto simp: u_def)
  from pe assms u have pb: "\<bar>p\<bar> \<le> 101" by linarith
  then have "\<bar>p / 100\<bar> \<le> 101 / 100" by simp
  from round_to_double_within[OF this] obtain q where
    q: "divide_num (Finite p) (Finite 100) = Finite q"
    and qe: "\<bar>q - p / 100\<bar> \<le> 201 / 100 * u"
    by (auto simp: u_def)
  from qe pb u have qb: "\<bar>q\<bar> \<le> 102 / 100" by linarith
  have qc: "\<bar>q * c\<bar> \<le> 117"
  proof -
    have "\<bar>q * c\<bar> = \<bar>q\<bar> * c" using c by (simp add: abs_mult)
    also have "\<dots> \<le> 102 / 100 * 114" using qb c by (intro mult_mono) simp_all
    finally show ?thesis by simp
  qed
  from round_to_double_within[OF this] obtain t where
    t: "mul (Finite q) (Finite c) = Finite t" and te: "\<bar>t - q * c\<bar> \<le> 118 * u"
    by (auto simp: u_def)
  from te qc u have tb: "\<bar>t\<bar> \<le> 118" by linarith
  have ct: "\<bar>c - t\<bar> \<le> 232" using c tb by linarith
  from round_to_double_within[OF this] obtain r where
    r: "sub (Finite c) (Finite t) = Finite r" and re: "\<bar>r - (c - t)\<bar> \<le> 233 * u"
    by (auto simp: u_def)
  have qs: "\<bar>q - s / 10\<bar> \<le> 302 / 100 * u"
    using qe pe by linarith
  have "q * c - s / 10 * c = (q - s / 10) * c"
    by (simp add: algebra_simps)
  then have "\<bar>q * c - s / 10 * c\<bar> = \<bar>q - s / 10\<bar> * c"
    using c by (simp add: abs_mult)
  also have "\<dots> \<le> 302 / 100 * u * 114"
    using qs c u by (intro mult_mono) simp_all
  finally have qcs: "\<bar>q * c - s / 10 * c\<bar> \<le> 345 * u" using u by simp
  have "\<bar>r - c * (1 - s / 10)\<bar> \<le> 696 * u"
    using re te qcs by (simp add: algebra_simps)
  also have "\<dots> \<le> 1 / 2 ^ 43" by (simp add: u_def)
  finally have "\<bar>r - c * (1 - s / 10)\<bar> \<le> 1 / 2 ^ 43" .
  moreover have "offset (Finite s) =
      sub (Finite c) (mul (divide_num (mul (Finite s) (Finite 10)) (Finite 100)) (Finite c))"
    by (simp only: offset_def percentage_def circumference_value c_def)
  then have "offset (Finite s) = Finite r"
    by (simp only: p q t r)
  ultimately show ?thesis unfolding c_def by blast
qed

lemma offset_nine: "offset (Finite 9) = Finite (795851747103199 / 2 ^ 46)"
  unfolding offset_def percentage_def circumference_value by code_simp

lemma claimed_offset_nine:
  "mul circumference (sub (Finite 1) (divide_num (Finite 9) (Finite 10))) =
     Finite (6366813976825595 / 2 ^ 49)"
  unfolding circumference_value by code_simp

lemma colorClass_bands:
  "(ge score (Finite 7) \<longrightarrow> colorClass score = ''text-green-400'') \<and>
   (ge score (Finite 4) \<and> lt score (Finite 7) \<longrightarrow> colorClass score = ''text-yellow-400'') \<and>
   (lt score (Finite 4) \<longrightarrow> colorClass score = ''text-red-400'')"
  by (cases score) (auto simp: colorClass_def ge_def)

section \<open>Properties of the flows\<close>

text \<open>
  A flow either rejects its input without calling the model, or calls it exactly once and
  then fails with the error thrown, fails on an output that does not conform, or returns
  the output.
\<close>

lemma generate_rejects:
  "validate GenerateSocialMediaCopyInputSchema [] input \<noteq> [] \<Longrightarrow>
   generateSocialMediaCopy fmt invoke input sent =
     (Inl (InputValidationError (validate GenerateSocialMediaCopyInputSchema [] input)), sent)"
  by (simp add: generateSocialMediaCopy_def generateSocialMediaCopyFlow_def defineFlow_rejects)

lemma generate_accepts:
  "validate GenerateSocialMediaCopyInputSchema [] input = [] \<Longrightarrow>
   generateSocialMediaCopy fmt invoke input sent =
     (case invoke (length sent) (generateSocialMediaCopyPrompt fmt input) of
        Throws e \<Rightarrow> (Inl (ModelInvocationError e), sent @ [generateSocialMediaCopyPrompt fmt input])
      | Responds output \<Rightarrow>
          (if validate GenerateSocialMediaCopyOutputSchema [] output = []
           then (Inr output, sent @ [generateSocialMediaCopyPrompt fmt input])
           else (Inl (SchemaValidationError (validate GenerateSocialMediaCopyOutputSchema [] output)),
                 sent @ [generateSocialMediaCopyPrompt fmt input])))"
  by (simp add: generateSocialMediaCopy_def generateSocialMediaCopyFlow_def defineFlow_accepts
        generateSocialMediaCopyPrompt_def split: reply.splits)

lemma analyze_cases:
  "analyzeMarketingOffer fmt invoke input sent =
     (if validate AnalyzeMarketingOfferInputSchema [] input \<noteq> [] then
        (Inl (InputValidationError (validate AnalyzeMarketingOfferInputSchema [] input)), sent)
      else
       (case invoke (length sent) (analyzeMarketingOfferPrompt fmt input) of
        Throws e \<Rightarrow> (Inl (ModelInvocationError e), sent @ [analyzeMarketingOfferPrompt fmt input])
      | Responds output \<Rightarrow>
          (if validate AnalyzeMarketingOfferOutputSchema [] output = []
           then (Inr output, sent @ [analyzeMarketingOfferPrompt fmt input])
           else (Inl (SchemaValidationError (validate AnalyzeMarketingOfferOutputSchema [] output)),
                 sent @ [analyzeMarketingOfferPrompt fmt input]))))"
  using analyze_rejects[of input fmt invoke sent] analyze_accepts[of input fmt invoke sent]
  by (simp del: validate.simps)

lemma generate_cases:
  "generateSocialMediaCopy fmt invoke input sent =
     (if validate GenerateSocialMediaCopyInputSchema [] input \<noteq> [] then
        (Inl (InputValidationError (validate GenerateSocialMediaCopyInputSchema [] input)), sent)
      else
       (case invoke (length sent) (generateSocialMediaCopyPrompt fmt input) of
        Throws e \<Rightarrow> (Inl (ModelInvocationError e), sent @ [generateSocialMediaCopyPrompt fmt input])
      | Responds output \<Rightarrow>
          (if validate GenerateSocialMediaCopyOutputSchema [] output = []
           then (Inr output, sent @ [generateSocialMediaCopyPrompt fmt input])
           else (Inl (SchemaValidationError (validate GenerateSocialMediaCopyOutputSchema [] output)),
                 sent @ [generateSocialMediaCopyPrompt fmt input]))))"
  using generate_rejects[of input fmt invoke sent] generate_accepts[of input fmt invoke sent]
  by (simp del: validate.simps)

lemma analyze_returns:
  "fst (analyzeMarketingOffer fmt invoke input sent) = Inr output \<longleftrightarrow>
   validate AnalyzeMarketingOfferInputSchema [] input = [] \<and>
   invoke (length sent) (analyzeMarketingOfferPrompt fmt input) = Responds output \<and>
   validate AnalyzeMarketingOfferOutputSchema [] output = []"
  unfolding analyze_cases by (auto simp del: validate.simps split: reply.splits)

lemma generate_returns:
  "fst (generateSocialMediaCopy fmt invoke input sent) = Inr output \<longleftrightarrow>
   validate GenerateSocialMediaCopyInputSchema [] input = [] \<and>
   invoke (length sent) (generateSocialMediaCopyPrompt fmt input) = Responds output \<and>
   validate GenerateSocialMediaCopyOutputSchema [] output = []"
  unfolding generate_cases by (auto simp del: validate.simps split: reply.splits)

section \<open>Properties of the prompts\<close>

lemma render_raw_field:
  "render_part fmt (Raw [k]) ctx =
     (case field k ctx of None \<Rightarrow> [] | Some (JStr s) \<Rightarrow> s | Some v \<Rightarrow> fmt v)"
  by (simp split: option.splits)

lemma render_esc_field:
  "render_part fmt (Esc [k]) ctx = (case field k ctx of None \<Rightarrow> [] | Some v \<Rightarrow> fmt v)"
  by (simp split: option.splits)

lemma render_append: "render fmt (xs @ ys) ctx = render fmt xs ctx @ render fmt ys ctx"
  by (simp add: render_def)

lemma analyze_template_split:
  "analyzeMarketingOfferTemplate =
     take 5 analyzeMarketingOfferTemplate @ [Raw [''persona'']] @ drop 6 analyzeMarketingOfferTemplate"
  by (simp add: analyzeMarketingOfferTemplate_def)

lemma persona_in_prompt:
  assumes "field ''persona'' input = Some (JStr p)"
  shows "analyzeMarketingOfferPrompt fmt input =
           render fmt (take 5 analyzeMarketingOfferTemplate) input @ p @
           render fmt (drop 6 analyzeMarketingOfferTemplate) input"
proof -
  have "render fmt [Raw [''persona'']] input = p"
    using assms by (simp add: render_def)
  then show ?thesis
    unfolding analyzeMarketingOfferPrompt_def
    by (subst analyze_template_split) (simp only: render_append)
qed

lemma analyze_prompt_fields:
  assumes "field ''offerDetails'' a = field ''offerDetails'' b"
    and "field ''inputType'' a = field ''inputType'' b"
    and "field ''persona'' a = field ''persona'' b"
  shows "analyzeMarketingOfferPrompt fmt a = analyzeMarketingOfferPrompt fmt b"
  unfolding analyzeMarketingOfferPrompt_def render_def analyzeMarketingOfferTemplate_def
  by (simp only: list.map render_part.simps(1) render_raw_field assms)

lemma generate_prompt_fields:
  assumes "field ''analysis'' a = field ''analysis'' b"
    and "field ''persona'' a = field ''persona'' b"
    and "field ''offerDetails'' a = field ''offerDetails'' b"
  shows "generateSocialMediaCopyPrompt fmt a = generateSocialMediaCopyPrompt fmt b"
  unfolding generateSocialMediaCopyPrompt_def render_def generateSocialMediaCopyTemplate_def
  by (simp only: list.map render_part.simps(1,4) render_esc_field assms)

section \<open>Runs on the sample data\<close>

lemma short_run:
  "analyzeMarketingOffer plain_fmt (answers out) signup_request [] =
     (if validate AnalyzeMarketingOfferOutputSchema [] out = []
      then (Inr out, [analyzeMarketingOfferPrompt plain_fmt signup_request])
      else (Inl (SchemaValidationError (validate AnalyzeMarketingOfferOutputSchema [] out)),
            [analyzeMarketingOfferPrompt plain_fmt signup_request]))"
  by (simp add: analyze_accepts signup_request_valid answers_def del: validate.simps)

lemma short_request_run:
  "analyzeMarketingOffer plain_fmt (answers full_output) short_request [] =
     (Inr full_output, [analyzeMarketingOfferPrompt plain_fmt short_request])"
  by (simp add: analyze_accepts short_request_valid answers_def full_output_valid
        del: validate.simps)

lemma martian_request_run:
  "analyzeMarketingOffer plain_fmt (answers full_output) martian_request [] =
     (Inr full_output, [analyzeMarketingOfferPrompt plain_fmt martian_request])"
  by (simp add: analyze_accepts martian_request_valid answers_def full_output_valid
        del: validate.simps)

lemma long_request_valid: "validate AnalyzeMarketingOfferInputSchema [] long_request = []"
  by (simp add: input_schema_iff long_request_def field_def)

lemma numeric_request_issues:
  "validate AnalyzeMarketingOfferInputSchema [] numeric_request =
     [([Key ''offerDetails''], ExpectedString)]"
  by (simp add: AnalyzeMarketingOfferInputSchema_def numeric_request_def)

lemma numeric_persona_request_issues:
  "validate AnalyzeMarketingOfferInputSchema [] numeric_persona_request =
     [([Key ''persona''], ExpectedString)]"
  by (simp add: AnalyzeMarketingOfferInputSchema_def numeric_persona_request_def)

lemma no_persona_request_issues:
  "validate AnalyzeMarketingOfferInputSchema [] no_persona_request =
     [([], Required ''persona'')]"
  by (simp add: AnalyzeMarketingOfferInputSchema_def no_persona_request_def)

lemma persona_rejected:
  assumes "\<And>q. field ''persona'' v \<noteq> Some (JStr q)"
  shows "validate AnalyzeMarketingOfferInputSchema [] v \<noteq> []"
  using assms unfolding input_schema_iff by blast

lemma persona_issue:
  assumes "map_of kvs ''offerDetails'' = Some (JStr od)"
    and "map_of kvs ''inputType'' = Some (JStr it)"
    and "it = ''link'' \<or> it = ''text''"
    and "\<And>q. map_of kvs ''persona'' \<noteq> Some (JStr q)"
  shows "validate AnalyzeMarketingOfferInputSchema [] (JObj kvs) =
           (case map_of kvs ''persona'' of
              None \<Rightarrow> [([], Required ''persona'')]
            | Some x \<Rightarrow> [([Key ''persona''], ExpectedString)])"
proof (cases "map_of kvs ''persona''")
  case None
  with assms(1,2) show ?thesis by (simp add: AnalyzeMarketingOfferInputSchema_def)
next
  case (Some x)
  with assms(4) have "\<And>q. x \<noteq> JStr q" by simp
  then have "validate ZString [Key ''persona''] x = [([Key ''persona''], ExpectedString)]"
    by (cases x) auto
  with Some assms(1,2,3) show ?thesis
    by (auto simp add: AnalyzeMarketingOfferInputSchema_def)
qed

lemma null_output_issues:
  "validate AnalyzeMarketingOfferOutputSchema [] JNull = [([], ExpectedObject)]"
  by (simp add: AnalyzeMarketingOfferOutputSchema_def)

lemma null_copy_issues:
  "validate GenerateSocialMediaCopyOutputSchema [] JNull = [([], ExpectedObject)]"
  by (simp add: GenerateSocialMediaCopyOutputSchema_def)

lemma copy_request_valid: "validate GenerateSocialMediaCopyInputSchema [] copy_request = []"
  by (simp add: generate_input_schema_iff copy_request_def field_def item_schema_compatible
        headline_item_valid cta_item_valid del: validate.simps)

lemma instagram_copy_valid: "validate GenerateSocialMediaCopyOutputSchema [] instagram_copy = []"
  by (simp add: GenerateSocialMediaCopyOutputSchema_def instagram_copy_def)

section \<open>The claims\<close>

text \<open>
  C1, as the code has it. Analyze either returns exactly the output the model gave, which
  then conforms to the output schema as the source declares it (\<^verbatim>\<open>analysis\<close> is an array,
  of any length, of items with a numeric score and a fix of two strings, and \<^verbatim>\<open>sampleCopy\<close>
  is present), after one call to the model; or it fails with an error, after no call
  or one. A value that does not conform to the schema is never returned.
\<close>

theorem analyze_returns_conforming_output_or_error:
  "(\<exists>output items copy.
      analyzeMarketingOffer fmt invoke input sent =
        (Inr output, sent @ [analyzeMarketingOfferPrompt fmt input]) \<and>
      invoke (length sent) (analyzeMarketingOfferPrompt fmt input) = Responds output \<and>
      field ''analysis'' output = Some (JArr items) \<and>
      (\<forall>item\<in>set items. \<exists>n fx a b.
          field ''score'' item = Some (JNum n) \<and> field ''fix'' item = Some fx \<and>
          field ''primarySuggestion'' fx = Some (JStr a) \<and>
          field ''abTestSuggestion'' fx = Some (JStr b)) \<and>
      field ''sampleCopy'' output = Some copy) \<or>
   (\<exists>e. analyzeMarketingOffer fmt invoke input sent = (Inl e, sent)) \<or>
   (\<exists>e. analyzeMarketingOffer fmt invoke input sent =
          (Inl e, sent @ [analyzeMarketingOfferPrompt fmt input]))"
proof (cases "fst (analyzeMarketingOffer fmt invoke input sent)")
  case (Inl e)
  then show ?thesis
    unfolding analyze_cases by (auto simp del: validate.simps split: reply.splits if_splits)
next
  case (Inr out)
  then have v: "validate AnalyzeMarketingOfferInputSchema [] input = []"
    and r: "invoke (length sent) (analyzeMarketingOfferPrompt fmt input) = Responds out"
    and out: "validate AnalyzeMarketingOfferOutputSchema [] out = []"
    by (simp_all add: analyze_returns del: validate.simps)
  from out obtain items copy where
    a: "field ''analysis'' out = Some (JArr items)"
    and i: "\<forall>item\<in>set items. validate AnalysisItemSchema [] item = []"
    and c: "field ''sampleCopy'' out = Some copy"
    unfolding output_schema_iff by blast
  from i have "\<forall>item\<in>set items. \<exists>n fx a b.
          field ''score'' item = Some (JNum n) \<and> field ''fix'' item = Some fx \<and>
          field ''primarySuggestion'' fx = Some (JStr a) \<and>
          field ''abTestSuggestion'' fx = Some (JStr b)"
    unfolding item_schema_iff by blast
  moreover have "analyzeMarketingOffer fmt invoke input sent =
        (Inr out, sent @ [analyzeMarketingOfferPrompt fmt input])"
    using v r out by (simp add: analyze_accepts del: validate.simps)
  ultimately show ?thesis using r a c by blast
qed

theorem analyze_returns_conforming_output_witness:
  "analyzeMarketingOffer plain_fmt (answers full_output) signup_request [] =
     (Inr full_output, [analyzeMarketingOfferPrompt plain_fmt signup_request]) \<and>
   field ''analysis'' full_output = Some (JArr [headline_item, cta_item]) \<and>
   field ''score'' headline_item = Some (JNum 7) \<and> field ''score'' cta_item = Some (JNum 5)"
proof -
  have "analyzeMarketingOffer plain_fmt (answers full_output) signup_request [] =
     (Inr full_output, [analyzeMarketingOfferPrompt plain_fmt signup_request])"
    by (simp add: short_run full_output_valid del: validate.simps)
  moreover have "field ''analysis'' full_output = Some (JArr [headline_item, cta_item])"
    by (simp add: full_output_def field_def)
  moreover have "field ''score'' headline_item = Some (JNum 7)"
    by (simp add: headline_item_def field_def)
  moreover have "field ''score'' cta_item = Some (JNum 5)"
    by (simp add: cta_item_def field_def)
  ultimately show ?thesis
    using analyze_returns_conforming_output_or_error[of plain_fmt "answers full_output"
            signup_request "[]"]
    by simp
qed

text \<open>
  C1 as stated fails: the output schema bounds neither the length of \<^verbatim>\<open>analysis\<close> nor the
  score and does not compare the two suggestions. For the request of the first scenario
  and a model that answers with one item of score 11 whose two suggestions are equal,
  Analyze returns that answer as its result.
\<close>

theorem one_item_score_eleven_counterexample:
  "analyzeMarketingOffer plain_fmt (answers lone_output) signup_request [] =
     (Inr lone_output, [analyzeMarketingOfferPrompt plain_fmt signup_request]) \<and>
   field ''analysis'' lone_output = Some (JArr [eleven_item]) \<and>
   length [eleven_item] = 1 \<and>
   field ''score'' eleven_item = Some (JNum 11) \<and>
   field ''fix'' eleven_item =
     Some (JObj [(''primarySuggestion'', JStr ''Rewrite it''),
                 (''abTestSuggestion'', JStr ''Rewrite it'')])"
proof -
  have "analyzeMarketingOffer plain_fmt (answers lone_output) signup_request [] =
     (Inr lone_output, [analyzeMarketingOfferPrompt plain_fmt signup_request])"
    by (simp add: short_run lone_output_valid del: validate.simps)
  moreover have "field ''analysis'' lone_output = Some (JArr [eleven_item])"
    by (simp add: lone_output_def field_def)
  moreover have "field ''score'' eleven_item = Some (JNum 11)"
    and "field ''fix'' eleven_item =
     Some (JObj [(''primarySuggestion'', JStr ''Rewrite it''),
                 (''abTestSuggestion'', JStr ''Rewrite it'')])"
    by (simp_all add: eleven_item_def field_def)
  ultimately show ?thesis by simp
qed

text \<open>
  C2, as the code has it. A request that fails the request schema gets an
  input-validation error and no call to the model is made. The schema asks of
  \<^verbatim>\<open>offerDetails\<close> only that it is a string: a request that passes has a string there and
  leads to exactly one call, and with an input type of \<^verbatim>\<open>link\<close> or \<^verbatim>\<open>text\<close> and a persona
  string every offer string passes, whatever its length.
\<close>

theorem request_schema_sets_no_length_bound:
  "(validate AnalyzeMarketingOfferInputSchema [] input \<noteq> [] \<longrightarrow>
      analyzeMarketingOffer fmt invoke input sent =
        (Inl (InputValidationError (validate AnalyzeMarketingOfferInputSchema [] input)), sent)) \<and>
   (validate AnalyzeMarketingOfferInputSchema [] input = [] \<longrightarrow>
      (\<exists>od. field ''offerDetails'' input = Some (JStr od)) \<and>
      snd (analyzeMarketingOffer fmt invoke input sent) =
        sent @ [analyzeMarketingOfferPrompt fmt input]) \<and>
   (it = ''link'' \<or> it = ''text'' \<longrightarrow>
      validate AnalyzeMarketingOfferInputSchema []
        (JObj [(''offerDetails'', JStr od), (''inputType'', JStr it), (''persona'', JStr ps)]) = [])"
proof (intro conjI impI)
  assume "validate AnalyzeMarketingOfferInputSchema [] input \<noteq> []"
  then show "analyzeMarketingOffer fmt invoke input sent =
        (Inl (InputValidationError (validate AnalyzeMarketingOfferInputSchema [] input)), sent)"
    by (rule analyze_rejects)
next
  assume v: "validate AnalyzeMarketingOfferInputSchema [] input = []"
  then show "\<exists>od. field ''offerDetails'' input = Some (JStr od)"
    unfolding input_schema_iff by blast
  from v show "snd (analyzeMarketingOffer fmt invoke input sent) =
        sent @ [analyzeMarketingOfferPrompt fmt input]"
    by (simp add: analyze_accepts del: validate.simps split: reply.splits)
next
  assume "it = ''link'' \<or> it = ''text''"
  then show "validate AnalyzeMarketingOfferInputSchema []
        (JObj [(''offerDetails'', JStr od), (''inputType'', JStr it), (''persona'', JStr ps)]) = []"
    unfolding input_schema_iff by (simp add: field_def)
qed

theorem request_schema_witness:
  "validate AnalyzeMarketingOfferInputSchema [] numeric_request \<noteq> [] \<and>
   analyzeMarketingOffer plain_fmt (answers full_output) numeric_request [] =
     (Inl (InputValidationError [([Key ''offerDetails''], ExpectedString)]), []) \<and>
   validate AnalyzeMarketingOfferInputSchema [] short_request = [] \<and>
   snd (analyzeMarketingOffer plain_fmt (answers full_output) short_request []) =
     [analyzeMarketingOfferPrompt plain_fmt short_request] \<and>
   validate AnalyzeMarketingOfferInputSchema []
     (JObj [(''offerDetails'', JStr ''short''), (''inputType'', JStr ''text''),
            (''persona'', JStr ''General Audience'')]) = []"
  using request_schema_sets_no_length_bound[of numeric_request plain_fmt "answers full_output" "[]"
          "''text''" "''short''" "''General Audience''"]
    request_schema_sets_no_length_bound[of short_request plain_fmt "answers full_output" "[]"
          "''text''" "''short''" "''General Audience''"]
  by (simp add: numeric_request_issues short_request_valid del: validate.simps)

text \<open>
  C2 as stated fails: the request of the second scenario, whose offer has five
  characters, passes validation and the model is called with its prompt; a request with
  an offer of 2001 characters passes validation as well.
\<close>

theorem short_offer_reaches_model_counterexample:
  "field ''offerDetails'' short_request = Some (JStr ''short'') \<and>
   length ''short'' < 10 \<and>
   analyzeMarketingOffer plain_fmt (answers full_output) short_request [] =
     (Inr full_output, [analyzeMarketingOfferPrompt plain_fmt short_request]) \<and>
   field ''offerDetails'' long_request = Some (JStr (replicate 2001 (CHR ''x''))) \<and>
   length (replicate 2001 (CHR ''x'')) > 2000 \<and>
   validate AnalyzeMarketingOfferInputSchema [] long_request = []"
proof -
  have "field ''offerDetails'' short_request = Some (JStr ''short'')"
    by (simp add: short_request_def field_def)
  moreover have "field ''offerDetails'' long_request = Some (JStr (replicate 2001 (CHR ''x'')))"
    by (simp add: long_request_def field_def)
  ultimately show ?thesis
    by (simp add: short_request_run long_request_valid del: validate.simps)
qed

text \<open>
  C3, as the code has it. The request schema declares \<^verbatim>\<open>persona\<close> as a string, not as an
  enumeration: with a string offer and a valid input type every persona string passes
  validation, the model is called once, and the prompt holds that very string between
  the rendering of the template's first five parts and of its last part, so it is not
  replaced by a default. A request object whose persona is missing or not a string fails
  with an input-validation error, and no call is made. The error reports one violation,
  the first that is found: when the offer and the input type are valid it is the
  persona's, at the path \<^verbatim>\<open>persona\<close> for a persona that is not a string and as a missing
  property \<^verbatim>\<open>persona\<close> of the root for a missing one.
\<close>

theorem every_persona_string_is_accepted:
  "(field ''offerDetails'' input = Some (JStr od) \<and> field ''inputType'' input = Some (JStr it) \<and>
    (it = ''link'' \<or> it = ''text'') \<and> field ''persona'' input = Some (JStr p) \<longrightarrow>
      validate AnalyzeMarketingOfferInputSchema [] input = [] \<and>
      snd (analyzeMarketingOffer fmt invoke input sent) =
        sent @ [analyzeMarketingOfferPrompt fmt input] \<and>
      analyzeMarketingOfferPrompt fmt input =
        render fmt (take 5 analyzeMarketingOfferTemplate) input @ p @
        render fmt (drop 6 analyzeMarketingOfferTemplate) input) \<and>
   ((\<forall>q. field ''persona'' (JObj kvs) \<noteq> Some (JStr q)) \<longrightarrow>
      validate AnalyzeMarketingOfferInputSchema [] (JObj kvs) \<noteq> [] \<and>
      analyzeMarketingOffer fmt invoke (JObj kvs) sent =
        (Inl (InputValidationError (validate AnalyzeMarketingOfferInputSchema [] (JObj kvs))), sent)) \<and>
   ((\<forall>q. field ''persona'' (JObj kvs) \<noteq> Some (JStr q)) \<and>
    field ''offerDetails'' (JObj kvs) = Some (JStr od) \<and>
    field ''inputType'' (JObj kvs) = Some (JStr it) \<and> (it = ''link'' \<or> it = ''text'') \<longrightarrow>
      validate AnalyzeMarketingOfferInputSchema [] (JObj kvs) =
        (case field ''persona'' (JObj kvs) of
           None \<Rightarrow> [([], Required ''persona'')]
         | Some x \<Rightarrow> [([Key ''persona''], ExpectedString)]))"
proof (intro conjI impI)
  assume a: "field ''offerDetails'' input = Some (JStr od) \<and>
    field ''inputType'' input = Some (JStr it) \<and>
    (it = ''link'' \<or> it = ''text'') \<and> field ''persona'' input = Some (JStr p)"
  then show v: "validate AnalyzeMarketingOfferInputSchema [] input = []"
    unfolding input_schema_iff by blast
  then show "snd (analyzeMarketingOffer fmt invoke input sent) =
        sent @ [analyzeMarketingOfferPrompt fmt input]"
    by (simp add: analyze_accepts del: validate.simps split: reply.splits)
  from a show "analyzeMarketingOfferPrompt fmt input =
        render fmt (take 5 analyzeMarketingOfferTemplate) input @ p @
        render fmt (drop 6 analyzeMarketingOfferTemplate) input"
    by (simp add: persona_in_prompt)
next
  assume n: "\<forall>q. field ''persona'' (JObj kvs) \<noteq> Some (JStr q)"
  then show e: "validate AnalyzeMarketingOfferInputSchema [] (JObj kvs) \<noteq> []"
    by (intro persona_rejected) simp
  then show "analyzeMarketingOffer fmt invoke (JObj kvs) sent =
        (Inl (InputValidationError (validate AnalyzeMarketingOfferInputSchema [] (JObj kvs))), sent)"
    by (rule analyze_rejects)
next
  assume a: "(\<forall>q. field ''persona'' (JObj kvs) \<noteq> Some (JStr q)) \<and>
    field ''offerDetails'' (JObj kvs) = Some (JStr od) \<and>
    field ''inputType'' (JObj kvs) = Some (JStr it) \<and> (it = ''link'' \<or> it = ''text'')"
  then have "validate AnalyzeMarketingOfferInputSchema [] (JObj kvs) =
           (case map_of kvs ''persona'' of
              None \<Rightarrow> [([], Required ''persona'')]
            | Some x \<Rightarrow> [([Key ''persona''], ExpectedString)])"
    by (intro persona_issue[of kvs od it]) (simp_all add: field_def)
  then show "validate AnalyzeMarketingOfferInputSchema [] (JObj kvs) =
        (case field ''persona'' (JObj kvs) of
           None \<Rightarrow> [([], Required ''persona'')]
         | Some x \<Rightarrow> [([Key ''persona''], ExpectedString)])"
    by (simp add: field_def)
qed

theorem every_persona_string_witness:
  "field ''persona'' martian_request = Some (JStr ''Martian Settlers'') \<and>
   validate AnalyzeMarketingOfferInputSchema [] martian_request = [] \<and>
   snd (analyzeMarketingOffer plain_fmt (answers full_output) martian_request []) =
     [analyzeMarketingOfferPrompt plain_fmt martian_request] \<and>
   analyzeMarketingOfferPrompt plain_fmt martian_request =
     render plain_fmt (take 5 analyzeMarketingOfferTemplate) martian_request @
     ''Martian Settlers'' @
     render plain_fmt (drop 6 analyzeMarketingOfferTemplate) martian_request \<and>
   analyzeMarketingOffer plain_fmt (answers full_output) numeric_persona_request [] =
     (Inl (InputValidationError [([Key ''persona''], ExpectedString)]), []) \<and>
   analyzeMarketingOffer plain_fmt (answers full_output) no_persona_request [] =
     (Inl (InputValidationError [([], Required ''persona'')]), []) \<and>
   analyzeMarketingOffer plain_fmt (answers full_output) numeric_request [] =
     (Inl (InputValidationError [([Key ''offerDetails''], ExpectedString)]), [])"
proof -
  have f: "field ''offerDetails'' martian_request = Some (JStr ''https://example.com/signup'')"
    "field ''inputType'' martian_request = Some (JStr ''link'')"
    "field ''persona'' martian_request = Some (JStr ''Martian Settlers'')"
    by (simp_all add: martian_request_def field_def)
  have n: "\<forall>q. field ''persona''
      (JObj [(''offerDetails'', JStr ''https://example.com/signup''),
             (''inputType'', JStr ''link''), (''persona'', JNum 3)]) \<noteq> Some (JStr q)"
    "\<forall>q. field ''persona''
      (JObj [(''offerDetails'', JStr ''https://example.com/signup''),
             (''inputType'', JStr ''link'')]) \<noteq> Some (JStr q)"
    "\<forall>q. field ''persona''
      (JObj [(''offerDetails'', JNum 5), (''inputType'', JStr ''text''), (''persona'', JNum 3)])
        \<noteq> Some (JStr q)"
    by (simp_all add: field_def)
  have g: "field ''offerDetails''
      (JObj [(''offerDetails'', JStr ''https://example.com/signup''),
             (''inputType'', JStr ''link''), (''persona'', JNum 3)]) =
        Some (JStr ''https://example.com/signup'')"
    "field ''inputType''
      (JObj [(''offerDetails'', JStr ''https://example.com/signup''),
             (''inputType'', JStr ''link''), (''persona'', JNum 3)]) = Some (JStr ''link'')"
    "field ''offerDetails''
      (JObj [(''offerDetails'', JStr ''https://example.com/signup''),
             (''inputType'', JStr ''link'')]) = Some (JStr ''https://example.com/signup'')"
    "field ''inputType''
      (JObj [(''offerDetails'', JStr ''https://example.com/signup''),
             (''inputType'', JStr ''link'')]) = Some (JStr ''link'')"
    by (simp_all add: field_def)
  show ?thesis
    using every_persona_string_is_accepted[of martian_request "''https://example.com/signup''"
            "''link''" "''Martian Settlers''" plain_fmt "answers full_output" "[]"
            "[(''offerDetails'', JStr ''https://example.com/signup''),
              (''inputType'', JStr ''link''), (''persona'', JNum 3)]"]
      every_persona_string_is_accepted[of martian_request "''https://example.com/signup''"
            "''link''" "''Martian Settlers''" plain_fmt "answers full_output" "[]"
            "[(''offerDetails'', JStr ''https://example.com/signup''),
              (''inputType'', JStr ''link'')]"]
      every_persona_string_is_accepted[of martian_request "''https://example.com/signup''"
            "''link''" "''Martian Settlers''" plain_fmt "answers full_output" "[]"
            "[(''offerDetails'', JNum 5), (''inputType'', JStr ''text''), (''persona'', JNum 3)]"]
      f n g numeric_request_issues numeric_persona_request_issues no_persona_request_issues
    unfolding numeric_request_def numeric_persona_request_def no_persona_request_def
    by (simp del: validate.simps)
qed

text \<open>
  C3 as stated fails: a persona that is not among the six options of the form passes
  validation and the flow returns the model's answer.
\<close>

theorem unlisted_persona_counterexample:
  "''Martian Settlers'' \<notin> set personaOptions \<and>
   field ''persona'' martian_request = Some (JStr ''Martian Settlers'') \<and>
   analyzeMarketingOffer plain_fmt (answers full_output) martian_request [] =
     (Inr full_output, [analyzeMarketingOfferPrompt plain_fmt martian_request])"
proof -
  have "field ''persona'' martian_request = Some (JStr ''Martian Settlers'')"
    by (simp add: martian_request_def field_def)
  moreover have "''Martian Settlers'' \<notin> set personaOptions"
    by (simp add: personaOptions_def)
  ultimately show ?thesis by (simp add: martian_request_run)
qed

text \<open>
  C4, as the code has it. When the output of the model does not conform to the output
  schema, either flow fails with a schema-validation error that lists the issues, having
  called the model exactly once: there is no second call. A result, when there is
  one, is the output of that one call unchanged and conforms to the schema, so nothing
  is made up or cut.
\<close>

theorem nonconforming_output_fails_after_one_call:
  "(validate AnalyzeMarketingOfferInputSchema [] input = [] \<and>
    invoke (length sent) (analyzeMarketingOfferPrompt fmt input) = Responds out \<and>
    validate AnalyzeMarketingOfferOutputSchema [] out \<noteq> [] \<longrightarrow>
      analyzeMarketingOffer fmt invoke input sent =
        (Inl (SchemaValidationError (validate AnalyzeMarketingOfferOutputSchema [] out)),
         sent @ [analyzeMarketingOfferPrompt fmt input])) \<and>
   (fst (analyzeMarketingOffer fmt invoke input sent) = Inr res \<longrightarrow>
      invoke (length sent) (analyzeMarketingOfferPrompt fmt input) = Responds res \<and>
      validate AnalyzeMarketingOfferOutputSchema [] res = []) \<and>
   (validate GenerateSocialMediaCopyInputSchema [] input = [] \<and>
    invoke (length sent) (generateSocialMediaCopyPrompt fmt input) = Responds out \<and>
    validate GenerateSocialMediaCopyOutputSchema [] out \<noteq> [] \<longrightarrow>
      generateSocialMediaCopy fmt invoke input sent =
        (Inl (SchemaValidationError (validate GenerateSocialMediaCopyOutputSchema [] out)),
         sent @ [generateSocialMediaCopyPrompt fmt input])) \<and>
   (fst (generateSocialMediaCopy fmt invoke input sent) = Inr res \<longrightarrow>
      invoke (length sent) (generateSocialMediaCopyPrompt fmt input) = Responds res \<and>
      validate GenerateSocialMediaCopyOutputSchema [] res = [])"
  by (simp add: analyze_accepts generate_accepts analyze_returns generate_returns
        del: validate.simps)

theorem nonconforming_output_witness:
  "analyzeMarketingOffer plain_fmt (answers JNull) signup_request [] =
     (Inl (SchemaValidationError [([], ExpectedObject)]),
      [analyzeMarketingOfferPrompt plain_fmt signup_request]) \<and>
   answers full_output 0 (analyzeMarketingOfferPrompt plain_fmt signup_request) =
     Responds full_output \<and>
   validate AnalyzeMarketingOfferOutputSchema [] full_output = [] \<and>
   generateSocialMediaCopy plain_fmt (answers JNull) copy_request [] =
     (Inl (SchemaValidationError [([], ExpectedObject)]),
      [generateSocialMediaCopyPrompt plain_fmt copy_request]) \<and>
   answers instagram_copy 0 (generateSocialMediaCopyPrompt plain_fmt copy_request) =
     Responds instagram_copy \<and>
   validate GenerateSocialMediaCopyOutputSchema [] instagram_copy = []"
proof -
  have a: "fst (analyzeMarketingOffer plain_fmt (answers full_output) signup_request []) =
      Inr full_output"
    by (simp add: short_run full_output_valid del: validate.simps)
  have g: "fst (generateSocialMediaCopy plain_fmt (answers instagram_copy) copy_request []) =
      Inr instagram_copy"
    by (simp add: generate_accepts copy_request_valid instagram_copy_valid answers_def
          del: validate.simps)
  show ?thesis
    using nonconforming_output_fails_after_one_call[of signup_request "answers JNull" "[]"
            plain_fmt JNull JNull]
      nonconforming_output_fails_after_one_call[of copy_request "answers JNull" "[]"
            plain_fmt JNull JNull]
      nonconforming_output_fails_after_one_call[of signup_request "answers full_output" "[]"
            plain_fmt JNull full_output]
      nonconforming_output_fails_after_one_call[of copy_request "answers instagram_copy" "[]"
            plain_fmt JNull instagram_copy]
      a g
    by (simp add: signup_request_valid copy_request_valid null_output_issues null_copy_issues
          answers_def del: validate.simps)
qed

text \<open>
  C4 as stated fails: with a model whose first answer cannot be parsed and whose second
  answer would conform, Analyze fails after a single call; the second call is never
  made.
\<close>

theorem no_corrective_retry_counterexample:
  "analyzeMarketingOffer plain_fmt second_time_lucky signup_request [] =
     (Inl (SchemaValidationError [([], ExpectedObject)]),
      [analyzeMarketingOfferPrompt plain_fmt signup_request]) \<and>
   length [analyzeMarketingOfferPrompt plain_fmt signup_request] = 1 \<and>
   second_time_lucky 1 (analyzeMarketingOfferPrompt plain_fmt signup_request) =
     Responds full_output \<and>
   validate AnalyzeMarketingOfferOutputSchema [] full_output = []"
  by (simp add: analyze_accepts signup_request_valid second_time_lucky_def null_output_issues
        full_output_valid del: validate.simps)

text \<open>
  C5. Every value that the item schema of Analyze's output accepts is accepted by the item
  schema of GenerateCopy's input (the extra key \<^verbatim>\<open>id\<close> is let through), and an array of
  such items, put into a GenerateCopy request as its \<^verbatim>\<open>analysis\<close> field beside a persona
  and offer details, satisfies GenerateCopy's input schema.
\<close>

theorem analysis_items_feed_generate_copy:
  "(validate AnalysisItemSchema [] item = [] \<longrightarrow> validate GenerateItemSchema [] item = []) \<and>
   (validate (ZArray AnalysisItemSchema) [] analysis = [] \<longrightarrow>
    validate GenerateSocialMediaCopyInputSchema []
      (JObj [(''analysis'', analysis), (''persona'', JStr ps), (''offerDetails'', JStr od)]) = [])"
  by (auto simp add: generate_input_schema_iff validate_array_any_iff field_def
        item_schema_compatible simp del: validate.simps)

theorem analysis_items_feed_generate_copy_witness:
  "validate AnalysisItemSchema [] headline_item = [] \<and>
   validate GenerateItemSchema [] headline_item = [] \<and>
   validate (ZArray AnalysisItemSchema) [] (JArr [headline_item, cta_item]) = [] \<and>
   validate GenerateSocialMediaCopyInputSchema []
     (JObj [(''analysis'', JArr [headline_item, cta_item]), (''persona'', JStr ''SaaS Founders''),
            (''offerDetails'', JStr ''https://example.com/signup'')]) = []"
  using analysis_items_feed_generate_copy[of headline_item "JArr [headline_item, cta_item]"
          "''SaaS Founders''" "''https://example.com/signup''"]
  by (simp add: validate_array_iff headline_item_valid cta_item_valid del: validate.simps)

text \<open>
  C6, as the code has it. In every successful result \<^verbatim>\<open>sampleCopy.content\<close> is a string;
  the schema sets no bound on its length: beside conforming items every content string
  is accepted.
\<close>

theorem sample_copy_content_is_a_string:
  "(fst (analyzeMarketingOffer fmt invoke input sent) = Inr out \<longrightarrow>
      (\<exists>copy c. field ''sampleCopy'' out = Some copy \<and> field ''content'' copy = Some (JStr c))) \<and>
   ((\<forall>item\<in>set items. validate AnalysisItemSchema [] item = []) \<longrightarrow>
      validate AnalyzeMarketingOfferOutputSchema []
        (JObj [(''analysis'', JArr items),
               (''sampleCopy'', JObj [(''platform'', JStr pf), (''content'', JStr c)])]) = [])"
proof (intro conjI impI)
  assume "fst (analyzeMarketingOffer fmt invoke input sent) = Inr out"
  then have "validate AnalyzeMarketingOfferOutputSchema [] out = []"
    by (simp add: analyze_returns del: validate.simps)
  then show "\<exists>copy c. field ''sampleCopy'' out = Some copy \<and> field ''content'' copy = Some (JStr c)"
    unfolding output_schema_iff by blast
next
  assume "\<forall>item\<in>set items. validate AnalysisItemSchema [] item = []"
  then show "validate AnalyzeMarketingOfferOutputSchema []
        (JObj [(''analysis'', JArr items),
               (''sampleCopy'', JObj [(''platform'', JStr pf), (''content'', JStr c)])]) = []"
    unfolding output_schema_iff by (simp add: field_def del: validate.simps)
qed

theorem sample_copy_content_witness:
  "fst (analyzeMarketingOffer plain_fmt (answers terse_output) signup_request []) =
     Inr terse_output \<and>
   list_all (\<lambda>item. validate AnalysisItemSchema [] item = []) [headline_item, cta_item] \<and>
   validate AnalyzeMarketingOfferOutputSchema []
     (JObj [(''analysis'', JArr [headline_item, cta_item]),
            (''sampleCopy'', JObj [(''platform'', JStr ''Instagram Post''),
                                   (''content'', JStr ''Hi'')])]) = []"
proof -
  have a: "fst (analyzeMarketingOffer plain_fmt (answers terse_output) signup_request []) =
     Inr terse_output"
    by (simp add: short_run terse_output_valid del: validate.simps)
  have b: "\<forall>item\<in>set [headline_item, cta_item]. validate AnalysisItemSchema [] item = []"
    by (simp add: headline_item_valid cta_item_valid del: validate.simps)
  show ?thesis
    using sample_copy_content_is_a_string[of plain_fmt "answers terse_output" signup_request "[]"
            terse_output "[headline_item, cta_item]" "''Instagram Post''" "''Hi''"] a b
    by (simp add: headline_item_valid cta_item_valid del: validate.simps)
qed

text \<open>
  C6 as stated fails: a model answer whose sample copy has two characters is returned as
  a successful result.
\<close>

theorem two_character_copy_counterexample:
  "analyzeMarketingOffer plain_fmt (answers terse_output) signup_request [] =
     (Inr terse_output, [analyzeMarketingOfferPrompt plain_fmt signup_request]) \<and>
   field ''sampleCopy'' terse_output =
     Some (JObj [(''platform'', JStr ''Instagram Post''), (''content'', JStr ''Hi'')]) \<and>
   field ''content'' (JObj [(''platform'', JStr ''Instagram Post''), (''content'', JStr ''Hi'')]) =
     Some (JStr ''Hi'') \<and>
   length ''Hi'' < 50"
proof -
  have "field ''sampleCopy'' terse_output =
     Some (JObj [(''platform'', JStr ''Instagram Post''), (''content'', JStr ''Hi'')])"
    by (simp add: terse_output_def field_def)
  then show ?thesis
    by (simp add: short_run terse_output_valid field_def del: validate.simps)
qed

text \<open>
  C7. Rendering a prompt is a function of the template and the request alone: the renderer
  has no clock and no source of randomness among its arguments. The prompt of Analyze is
  determined by the three fields \<^verbatim>\<open>offerDetails\<close>, \<^verbatim>\<open>inputType\<close> and \<^verbatim>\<open>persona\<close> of the request:
  two requests that agree on them give the same prompt, character for character,
  whatever else they hold and in whatever order. The same holds for the prompt of
  GenerateCopy and the fields \<^verbatim>\<open>analysis\<close>, \<^verbatim>\<open>persona\<close> and \<^verbatim>\<open>offerDetails\<close>.
\<close>

theorem prompts_depend_on_request_fields_only:
  "(field ''offerDetails'' a = field ''offerDetails'' b \<and>
    field ''inputType'' a = field ''inputType'' b \<and>
    field ''persona'' a = field ''persona'' b \<longrightarrow>
      analyzeMarketingOfferPrompt fmt a = analyzeMarketingOfferPrompt fmt b) \<and>
   (field ''analysis'' a = field ''analysis'' b \<and>
    field ''persona'' a = field ''persona'' b \<and>
    field ''offerDetails'' a = field ''offerDetails'' b \<longrightarrow>
      generateSocialMediaCopyPrompt fmt a = generateSocialMediaCopyPrompt fmt b)"
  using analyze_prompt_fields[of a b fmt] generate_prompt_fields[of a b fmt] by blast

theorem prompts_depend_on_request_fields_witness:
  "analyzeMarketingOfferPrompt plain_fmt signup_request =
     analyzeMarketingOfferPrompt plain_fmt reordered_signup_request \<and>
   generateSocialMediaCopyPrompt plain_fmt copy_request =
     generateSocialMediaCopyPrompt plain_fmt reordered_copy_request"
proof -
  have "field ''offerDetails'' signup_request = field ''offerDetails'' reordered_signup_request"
    "field ''inputType'' signup_request = field ''inputType'' reordered_signup_request"
    "field ''persona'' signup_request = field ''persona'' reordered_signup_request"
    by (simp_all add: signup_request_def reordered_signup_request_def field_def)
  moreover have "field ''analysis'' copy_request = field ''analysis'' reordered_copy_request"
    "field ''persona'' copy_request = field ''persona'' reordered_copy_request"
    "field ''offerDetails'' copy_request = field ''offerDetails'' reordered_copy_request"
    by (simp_all add: copy_request_def reordered_copy_request_def field_def)
  ultimately show ?thesis
    using prompts_depend_on_request_fields_only[of signup_request reordered_signup_request plain_fmt]
      prompts_depend_on_request_fields_only[of copy_request reordered_copy_request plain_fmt]
    by blast
qed

text \<open>
  C8. When the one call to the model fails, Analyze fails at once with the error the
  invoker reported, unchanged, and the model has been called exactly once: the call is
  not repeated. With the invoker's classification as the specification gives it, the
  error of a timeout or transport failure is retryable and that of quota exhaustion or
  a safety block is not.
\<close>

theorem model_failure_fails_the_flow_at_once:
  "validate AnalyzeMarketingOfferInputSchema [] input = [] \<and>
   invoke (length sent) (analyzeMarketingOfferPrompt fmt input) = Throws (classify c) \<longrightarrow>
     analyzeMarketingOffer fmt invoke input sent =
       (Inl (ModelInvocationError (classify c)), sent @ [analyzeMarketingOfferPrompt fmt input]) \<and>
     (c = Timeout \<or> c = TransportFailure \<longrightarrow> retryable (classify c)) \<and>
     (c = QuotaExhausted \<or> c = SafetyBlock \<longrightarrow> \<not> retryable (classify c))"
  by (auto simp add: analyze_accepts classify_def simp del: validate.simps)

theorem model_failure_witness:
  "analyzeMarketingOffer plain_fmt (fails_with (classify Timeout)) signup_request [] =
     (Inl (ModelInvocationError (classify Timeout)),
      [analyzeMarketingOfferPrompt plain_fmt signup_request]) \<and>
   retryable (classify Timeout) \<and>
   analyzeMarketingOffer plain_fmt (fails_with (classify QuotaExhausted)) signup_request [] =
     (Inl (ModelInvocationError (classify QuotaExhausted)),
      [analyzeMarketingOfferPrompt plain_fmt signup_request]) \<and>
   \<not> retryable (classify QuotaExhausted)"
  using model_failure_fails_the_flow_at_once[of signup_request "fails_with (classify Timeout)" "[]"
          plain_fmt Timeout]
    model_failure_fails_the_flow_at_once[of signup_request "fails_with (classify QuotaExhausted)" "[]"
          plain_fmt QuotaExhausted]
  by (simp add: signup_request_valid fails_with_def del: validate.simps)

text \<open>
  C9. When \<^verbatim>\<open>inputValue\<close> consists only of white space (the empty string included),
  \<^verbatim>\<open>handleSubmit\<close> sets a non-empty error message, sends no request to
  \<^verbatim>\<open>analyzeMarketingOffer\<close> and leaves the displayed results as they were. When the input
  is not blank and \<^verbatim>\<open>analyzeMarketingOffer\<close> throws an \<^verbatim>\<open>Error\<close>, the results are null and
  the error message holds the thrown error's message.
\<close>

theorem handleSubmit_blank_input_and_thrown_error:
  "((\<forall>c\<in>set (inputValue st). is_whitespace c) \<longrightarrow>
      error (fst (handleSubmit analyze st)) \<noteq> [] \<and>
      snd (handleSubmit analyze st) = [] \<and>
      results (fst (handleSubmit analyze st)) = results st) \<and>
   (\<not> (\<forall>c\<in>set (inputValue st). is_whitespace c) \<and>
    analyze (inputValue st) (inputType st) (persona st) = Inl (ErrorObject m) \<longrightarrow>
      results (fst (handleSubmit analyze st)) = None \<and>
      error (fst (handleSubmit analyze st)) =
        utf16 ''An error occurred while analyzing: '' @ m @ utf16 ''. Please try again.'')"
  by (simp add: handleSubmit_def trim_empty_iff Let_def utf16_def)

theorem handleSubmit_witness:
  "list_all is_whitespace (inputValue blank_form) \<and>
   inputValue blank_form = [0x0020, 0x3000, 0x0009, 0xFEFF] \<and>
   error (fst (handleSubmit (action_throwing (utf16 ''quota'')) blank_form)) \<noteq> [] \<and>
   snd (handleSubmit (action_throwing (utf16 ''quota'')) blank_form) = [] \<and>
   results (fst (handleSubmit (action_throwing (utf16 ''quota'')) blank_form)) =
     Some full_output \<and>
   \<not> list_all is_whitespace (inputValue filled_form) \<and>
   results (fst (handleSubmit (action_throwing (utf16 ''quota'')) filled_form)) = None \<and>
   error (fst (handleSubmit (action_throwing (utf16 ''quota'')) filled_form)) =
     utf16 ''An error occurred while analyzing: quota. Please try again.''"
proof -
  have b: "\<forall>c\<in>set (inputValue blank_form). is_whitespace c"
    by (simp add: blank_form_def is_whitespace_def)
  have f: "\<not> (\<forall>c\<in>set (inputValue filled_form). is_whitespace c)"
    by (simp add: filled_form_def is_whitespace_def utf16_def)
  have t: "action_throwing (utf16 ''quota'') (inputValue filled_form) (inputType filled_form)
             (persona filled_form) = Inl (ErrorObject (utf16 ''quota''))"
    by (simp add: action_throwing_def)
  have r: "results blank_form = Some full_output" "inputValue blank_form = [0x0020, 0x3000, 0x0009, 0xFEFF]"
    by (simp_all add: blank_form_def)
  show ?thesis
    using handleSubmit_blank_input_and_thrown_error[of blank_form
            "action_throwing (utf16 ''quota'')" "utf16 ''quota''"]
      handleSubmit_blank_input_and_thrown_error[of filled_form
            "action_throwing (utf16 ''quota'')" "utf16 ''quota''"]
      b f t r
    by (simp add: list_all_iff utf16_def)
qed

text \<open>
  C10, as the code has it. The colour class of \<^verbatim>\<open>ScoreDonut\<close> is green for a score of at
  least 7, yellow for a score of at least 4 and below 7, and red for a score below 4.
  The dash offset of the arc is computed in double arithmetic, each operation rounded, as
  \<^verbatim>\<open>circumference - (score * 10 / 100) * circumference\<close>, where the circumference is the
  double 113.09733552923255; it equals the circumference times \<open>1 - score / 10\<close> up to
  rounding: for every score of magnitude at most 10 the two differ by at most \<open>2 ^ - 43\<close>.
\<close>

theorem score_donut_colour_and_offset:
  "(ge score (Finite 7) \<longrightarrow> colorClass score = ''text-green-400'') \<and>
   (ge score (Finite 4) \<and> lt score (Finite 7) \<longrightarrow> colorClass score = ''text-yellow-400'') \<and>
   (lt score (Finite 4) \<longrightarrow> colorClass score = ''text-red-400'') \<and>
   circumference = Finite (7958517471031995 / 2 ^ 46) \<and>
   (\<bar>s\<bar> \<le> 10 \<longrightarrow>
      (\<exists>r. offset (Finite s) = Finite r \<and>
           \<bar>r - 7958517471031995 / 2 ^ 46 * (1 - s / 10)\<bar> \<le> 1 / 2 ^ 43))"
  using colorClass_bands[of score] circumference_value offset_error[of s] by blast

theorem score_donut_witness:
  "colorClass (Finite 8) = ''text-green-400'' \<and>
   colorClass (Finite 5) = ''text-yellow-400'' \<and>
   colorClass (Finite 2) = ''text-red-400'' \<and>
   colorClass PosInf = ''text-green-400'' \<and>
   colorClass NegInf = ''text-red-400'' \<and>
   offset (Finite 9) = Finite (795851747103199 / 2 ^ 46) \<and>
   \<bar>795851747103199 / 2 ^ 46 - 7958517471031995 / 2 ^ 46 * (1 - 9 / 10) :: rat\<bar> \<le> 1 / 2 ^ 43"
  using score_donut_colour_and_offset[of "Finite 8" 9]
    score_donut_colour_and_offset[of "Finite 5" 9]
    score_donut_colour_and_offset[of "Finite 2" 9]
    score_donut_colour_and_offset[of PosInf 9]
    score_donut_colour_and_offset[of NegInf 9]
    offset_nine
  by (simp add: ge_def)

text \<open>
  C10 as stated fails: at score 9 the offset the code computes is 11.309733552923248,
  while the circumference times \<open>1 - score / 10\<close> is 11.309733552923253 when it is computed
  in doubles, and the exact product of the circumference and one tenth is yet another
  number.
\<close>

theorem offset_at_nine_counterexample:
  "offset (Finite 9) = Finite (795851747103199 / 2 ^ 46) \<and>
   mul circumference (sub (Finite 1) (divide_num (Finite 9) (Finite 10))) =
     Finite (6366813976825595 / 2 ^ 49) \<and>
   (795851747103199 / 2 ^ 46 :: rat) \<noteq> 6366813976825595 / 2 ^ 49 \<and>
   circumference = Finite (7958517471031995 / 2 ^ 46) \<and>
   (795851747103199 / 2 ^ 46 :: rat) \<noteq> 7958517471031995 / 2 ^ 46 * (1 - 9 / 10)"
  using offset_nine claimed_offset_nine circumference_value by simp

end
